theory Spec2Isabelle
  imports Complex_Main
begin

section \<open>Tiles, errors and the tile matrix set\<close>

text \<open>
  A \<open>morecantile.Tile\<close> is a named tuple of three Python integers.
\<close>

datatype tile = Tile (tile_x: int) (tile_y: int) (tile_z: int)

text \<open>
  Exceptions are values. \<open>rio_error\<close> collects the exceptions of the external raster
  reading capability (\<open>rio_tiler.errors\<close>); \<open>error\<close> adds the ones the backend itself
  raises: \<open>NoAssetFoundError\<close>, the \<open>IndexError\<close> of \<open>parent(tile)[0]\<close> on an empty list,
  the \<open>QuadKeyError\<close> of the tile matrix set and a failure of the abstract \<open>write\<close> method.
\<close>

datatype rio_error = PointOutsideBounds | TileOutsideBounds | EmptyMosaicError | RioError string

datatype error = NoAssetFoundError | IndexError | QuadKeyError | ReaderError rio_error
  | BackendIOError string

text \<open>
  The attribute \<open>self.tms\<close> is an object of the external library \<open>morecantile\<close>. The backend
  calls five of its methods; they are the fields of the record. \<open>parent\<close> and \<open>children\<close>
  return lists of tiles, \<open>quadkey_to_tile\<close> may raise \<open>QuadKeyError\<close>.
\<close>

record TileMatrixSet =
  tms_parent :: "tile \<Rightarrow> tile list"
  tms_children :: "tile \<Rightarrow> tile list"
  tms_quadkey :: "tile \<Rightarrow> string"
  tms_quadkey_to_tile :: "string \<Rightarrow> error + tile"
  tms_tile :: "real \<Rightarrow> real \<Rightarrow> int \<Rightarrow> tile"

section \<open>BaseBackend.find_quadkeys\<close>

text \<open>
  The loop \<open>for _ in range(depth): tile = self.tms.parent(tile)[0]\<close>. Indexing an empty
  list raises \<open>IndexError\<close>.
\<close>

fun parent_walk :: "TileMatrixSet \<Rightarrow> nat \<Rightarrow> tile \<Rightarrow> error + tile" where
  "parent_walk T 0 t = Inr t"
| "parent_walk T (Suc n) t =
     (case tms_parent T t of [] \<Rightarrow> Inl IndexError | p # _ \<Rightarrow> parent_walk T n p)"

text \<open>
  The loop \<open>for _ in range(depth): tiles = sum([self.tms.children(t) for t in tiles], [])\<close>.
\<close>

fun children_walk :: "TileMatrixSet \<Rightarrow> nat \<Rightarrow> tile list \<Rightarrow> tile list" where
  "children_walk T 0 ts = ts"
| "children_walk T (Suc n) ts = children_walk T n (concat (map (tms_children T) ts))"

definition find_quadkeys :: "TileMatrixSet \<Rightarrow> tile \<Rightarrow> int \<Rightarrow> error + string list" where
  "find_quadkeys T t qz =
     (if tile_z t > qz then
        (case parent_walk T (nat (tile_z t - qz)) t of
           Inl e \<Rightarrow> Inl e
         | Inr a \<Rightarrow> Inr [tms_quadkey T a])
      else if tile_z t < qz then
        Inr (map (tms_quadkey T)
               (filter (\<lambda>c. tile_z c = qz) (children_walk T (nat (qz - tile_z t)) [t])))
      else Inr [tms_quadkey T t])"

text \<open>
  The tiles reached from \<open>t\<close> by \<open>n\<close> parent steps, following every parent the tile matrix
  set returns (the code only follows the first): the ancestors of \<open>t\<close>, \<open>n\<close> levels up.
\<close>

fun ancestors :: "TileMatrixSet \<Rightarrow> nat \<Rightarrow> tile \<Rightarrow> tile list" where
  "ancestors T 0 t = [t]"
| "ancestors T (Suc n) t = concat (map (ancestors T n) (tms_parent T t))"

text \<open>
  The quadtree assumption of the specification: above zoom \<open>q\<close> every tile has exactly one
  parent, one zoom level up.
\<close>

definition one_parent_above :: "TileMatrixSet \<Rightarrow> int \<Rightarrow> bool" where
  "one_parent_above T q \<longleftrightarrow>
     (\<forall>t. q < tile_z t \<longrightarrow> (\<exists>p. tms_parent T t = [p] \<and> tile_z p = tile_z t - 1))"

section \<open>A quadtree tile matrix set\<close>

text \<open>
  The integer tile arithmetic of \<open>morecantile\<close> for a quadtree whose coarsest zoom is 0
  (WebMercatorQuad is one): it serves to run the backend on concrete inputs. The tile of a
  coordinate pair involves floating-point projection; it stays a parameter.
\<close>

definition digit_char :: "bool \<Rightarrow> bool \<Rightarrow> char" where
  "digit_char bx by =
     (if bx then (if by then CHR ''3'' else CHR ''1'')
      else (if by then CHR ''2'' else CHR ''0''))"

text \<open>
  \<open>quadkey\<close>: for \<open>z\<close> from \<open>t.z\<close> down to 1, the digit is 1 when \<open>t.x & (1 << (z - 1))\<close>,
  plus 2 when \<open>t.y & (1 << (z - 1))\<close>.
\<close>

fun quadkey_digits :: "int \<Rightarrow> int \<Rightarrow> nat \<Rightarrow> string" where
  "quadkey_digits tx ty 0 = []"
| "quadkey_digits tx ty (Suc n) = digit_char (bit tx n) (bit ty n) # quadkey_digits tx ty n"

text \<open>
  \<open>quadkey_to_tile\<close>: the digit at distance \<open>i\<close> from the end sets bit \<open>i\<close> of the column
  (digits 1 and 3) and of the row (digits 2 and 3); any other character raises. Each bit
  is set at most once, so setting it (\<open>xtile | mask\<close>) is adding the mask.
\<close>

fun quadkey_xy :: "string \<Rightarrow> error + (int \<times> int)" where
  "quadkey_xy [] = Inr (0, 0)"
| "quadkey_xy (d # ds) =
     (case quadkey_xy ds of
        Inl e \<Rightarrow> Inl e
      | Inr (tx, ty) \<Rightarrow>
          (if d = CHR ''0'' then Inr (tx, ty)
           else if d = CHR ''1'' then Inr (tx + 2 ^ length ds, ty)
           else if d = CHR ''2'' then Inr (tx, ty + 2 ^ length ds)
           else if d = CHR ''3'' then Inr (tx + 2 ^ length ds, ty + 2 ^ length ds)
           else Inl QuadKeyError))"

definition quadtree_tms :: "(real \<Rightarrow> real \<Rightarrow> int \<Rightarrow> tile) \<Rightarrow> TileMatrixSet" where
  "quadtree_tms f =
     \<lparr> tms_parent = (\<lambda>t. if tile_z t = 0 then []
                          else [Tile (tile_x t div 2) (tile_y t div 2) (tile_z t - 1)]),
       tms_children = (\<lambda>t. [Tile (2 * tile_x t) (2 * tile_y t) (tile_z t + 1),
                             Tile (2 * tile_x t) (2 * tile_y t + 1) (tile_z t + 1),
                             Tile (2 * tile_x t + 1) (2 * tile_y t) (tile_z t + 1),
                             Tile (2 * tile_x t + 1) (2 * tile_y t + 1) (tile_z t + 1)]),
       tms_quadkey = (\<lambda>t. quadkey_digits (tile_x t) (tile_y t) (nat (tile_z t))),
       tms_quadkey_to_tile = (\<lambda>qk. case quadkey_xy qk of
                                      Inl e \<Rightarrow> Inl e
                                    | Inr (tx, ty) \<Rightarrow> Inr (Tile tx ty (int (length qk)))),
       tms_tile = f \<rparr>"

text \<open>
  A plate-carree grid for concrete runs: column and row are the floors of the longitude
  and latitude offsets scaled to \<open>2 ^ z\<close> cells.
\<close>

definition grid_tile :: "real \<Rightarrow> real \<Rightarrow> int \<Rightarrow> tile" where
  "grid_tile lng lat zoom =
     Tile \<lfloor>(lng + 180) / 360 * 2 ^ nat zoom\<rfloor> \<lfloor>(90 - lat) / 180 * 2 ^ nat zoom\<rfloor> zoom"

section \<open>Python dictionaries\<close>

text \<open>
  A Python \<open>dict\<close> keeps its keys in insertion order: an association list with distinct
  keys. \<open>d.get(k, default)\<close> reads, \<open>d[k] = v\<close> replaces the value of a key in place or
  appends a new key, \<open>dict.fromkeys(ks)\<close> inserts the keys one after the other (each with
  the value \<open>None\<close>), and \<open>list(d)\<close> lists the keys.
\<close>

type_synonym ('k, 'v) dict = "('k \<times> 'v) list"

definition dict_get :: "('k, 'v) dict \<Rightarrow> 'k \<Rightarrow> 'v \<Rightarrow> 'v" where
  "dict_get d k dflt = (case map_of d k of None \<Rightarrow> dflt | Some v \<Rightarrow> v)"

fun dict_set :: "('k, 'v) dict \<Rightarrow> 'k \<Rightarrow> 'v \<Rightarrow> ('k, 'v) dict" where
  "dict_set [] k v = [(k, v)]"
| "dict_set ((k', v') # d) k v =
     (if k' = k then (k, v) # d else (k', v') # dict_set d k v)"

definition dict_fromkeys :: "'k list \<Rightarrow> ('k, unit) dict" where
  "dict_fromkeys ks = fold (\<lambda>k d. dict_set d k ()) ks []"

definition dict_keys :: "('k, 'v) dict \<Rightarrow> 'k list" where
  "dict_keys d = map fst d"

text \<open>
  The specification's words for the same list: duplicates removed, the first occurrence
  of every element kept in its place.
\<close>

fun dedupe_first :: "'a list \<Rightarrow> 'a list" where
  "dedupe_first [] = []"
| "dedupe_first (a # as) = a # filter (\<lambda>b. b \<noteq> a) (dedupe_first as)"

section \<open>cogeo\_mosaic.utils\<close>

type_synonym bbox = "real \<times> real \<times> real \<times> real"

datatype crs = EPSG nat

definition WGS84_CRS :: crs where
  "WGS84_CRS = EPSG 4326"

definition WEB_MERCATOR_CRS :: crs where
  "WEB_MERCATOR_CRS = EPSG 3857"

text \<open>Floats are modelled as reals: no rounding, no NaN.\<close>

definition bbox_union :: "bbox \<Rightarrow> bbox \<Rightarrow> bbox" where
  "bbox_union bbox_1 bbox_2 =
     (case bbox_1 of (a0, a1, a2, a3) \<Rightarrow>
        (case bbox_2 of (c0, c1, c2, c3) \<Rightarrow>
           (min a0 c0, min a1 c1, max a2 c2, max a3 c3)))"

text \<open>
  \<open>transform_point\<close>; \<open>warp src dst (lng, lat)\<close> stands for \<open>rasterio.warp.transform\<close> on
  one point.
\<close>

definition transform_point ::
  "(crs \<Rightarrow> crs \<Rightarrow> real \<times> real \<Rightarrow> real \<times> real) \<Rightarrow> real \<Rightarrow> real \<Rightarrow> crs \<Rightarrow> crs \<Rightarrow> real \<times> real" where
  "transform_point warp lng lat src_crs dst_crs =
     (if src_crs \<noteq> dst_crs then warp src_crs dst_crs (lng, lat) else (lng, lat))"

section \<open>The mosaic document and the backend\<close>

text \<open>
  The fields of \<open>MosaicJSON\<close> the backend reads or writes. \<open>stored_quadkey_zoom\<close> is the
  optional field \<open>quadkey_zoom\<close> of the document. The version is of a type \<open>'v\<close>: how
  \<open>_increase_version\<close> steps it is a parameter of \<open>update\<close>.
\<close>

record 'v MosaicJSON =
  version :: 'v
  minzoom :: int
  maxzoom :: int
  stored_quadkey_zoom :: "int option"
  bounds :: bbox
  center :: "real \<times> real \<times> int"
  tiles :: "(string, string list) dict"
  name :: "string option"

text \<open>
  The attributes of \<open>BaseBackend\<close> its methods read or write; \<open>backend_bounds\<close> is
  \<open>self.bounds\<close>, the copy of the document's bounds.
\<close>

record 'v BaseBackend =
  input :: string
  mosaic_def :: "'v MosaicJSON"
  tms :: TileMatrixSet
  geographic_crs :: crs
  backend_bounds :: bbox

text \<open>The property \<open>quadkey_zoom\<close>: \<open>self.mosaic_def.quadkey_zoom or self.mosaic_def.minzoom\<close>.
  Python's \<open>or\<close> yields its right operand when the left one is \<open>None\<close> or \<open>0\<close>.\<close>

definition quadkey_zoom :: "'v BaseBackend \<Rightarrow> int" where
  "quadkey_zoom b =
     (case stored_quadkey_zoom (mosaic_def b) of
        None \<Rightarrow> minzoom (mosaic_def b)
      | Some q \<Rightarrow> if q = 0 then minzoom (mosaic_def b) else q)"

text \<open>
  The property \<open>mosaicid\<close>: \<open>get_hash\<close> of the document. \<open>get_hash\<close> is a parameter \<open>H\<close>.
\<close>

definition mosaicid :: "('v MosaicJSON \<Rightarrow> 'h) \<Rightarrow> 'v BaseBackend \<Rightarrow> 'h" where
  "mosaicid H b = H (mosaic_def b)"

section \<open>BaseBackend.get\_assets and its cache\<close>

text \<open>
  The body of \<open>get_assets\<close>, without the decorator.
\<close>

definition get_assets_wrapped :: "'v BaseBackend \<Rightarrow> int \<Rightarrow> int \<Rightarrow> int \<Rightarrow> error + string list" where
  "get_assets_wrapped b tx ty tz =
     (case find_quadkeys (tms b) (Tile tx ty tz) (quadkey_zoom b) of
        Inl e \<Rightarrow> Inl e
      | Inr quadkeys \<Rightarrow>
          Inr (dict_keys (dict_fromkeys
                 (concat (map (\<lambda>qk. dict_get (tiles (mosaic_def b)) qk []) quadkeys)))))"

text \<open>
  The decorator \<open>cached(TTLCache(...), key=...)\<close>. The cache is one store for all backends,
  from keys \<open>hashkey(self.input, x, y, z, self.mosaicid)\<close> to asset lists. Expiry after the
  time to live, eviction beyond the maximal size and a refused store only ever remove
  entries: \<open>ev\<close> stands for what they leave of a store, at every access and after every
  store. A call that raises stores nothing.
\<close>

type_synonym 'h cache = "(string \<times> int \<times> int \<times> int \<times> 'h) \<rightharpoonup> string list"

definition hashkey :: "('v MosaicJSON \<Rightarrow> 'h) \<Rightarrow> 'v BaseBackend \<Rightarrow> int \<Rightarrow> int \<Rightarrow> int \<Rightarrow> string \<times> int \<times> int \<times> int \<times> 'h" where
  "hashkey H b tx ty tz = (input b, tx, ty, tz, mosaicid H b)"

definition get_assets ::
  "('v MosaicJSON \<Rightarrow> 'h) \<Rightarrow> ('h cache \<Rightarrow> 'h cache) \<Rightarrow> 'v BaseBackend \<Rightarrow> 'h cache \<Rightarrow> int \<Rightarrow> int \<Rightarrow> int
     \<Rightarrow> (error + string list) \<times> 'h cache" where
  "get_assets H ev b c tx ty tz =
     (let c1 = ev c in
      case c1 (hashkey H b tx ty tz) of
        Some v \<Rightarrow> (Inr v, c1)
      | None \<Rightarrow>
          (case get_assets_wrapped b tx ty tz of
             Inl e \<Rightarrow> (Inl e, c1)
           | Inr v \<Rightarrow> (Inr v, ev (c1(hashkey H b tx ty tz \<mapsto> v)))))"

section \<open>BaseBackend.assets\_for\_point and assets\_for\_bbox\<close>

definition assets_for_point ::
  "('v MosaicJSON \<Rightarrow> 'h) \<Rightarrow> ('h cache \<Rightarrow> 'h cache) \<Rightarrow> (crs \<Rightarrow> crs \<Rightarrow> real \<times> real \<Rightarrow> real \<times> real)
     \<Rightarrow> 'v BaseBackend \<Rightarrow> 'h cache \<Rightarrow> real \<Rightarrow> real \<Rightarrow> crs \<Rightarrow> (error + string list) \<times> 'h cache" where
  "assets_for_point H ev warp b c lng lat coord_crs =
     (case transform_point warp lng lat coord_crs (geographic_crs b) of
        (lng', lat') \<Rightarrow>
          (let t = tms_tile (tms b) lng' lat' (quadkey_zoom b)
           in get_assets H ev b c (tile_x t) (tile_y t) (tile_z t)))"

text \<open>
  The list \<open>[self.get_assets(*t) for t in tiles]\<close>: the calls run in order, each on the
  cache the one before left; the first exception ends the comprehension.
\<close>

fun get_assets_each ::
  "('v MosaicJSON \<Rightarrow> 'h) \<Rightarrow> ('h cache \<Rightarrow> 'h cache) \<Rightarrow> 'v BaseBackend \<Rightarrow> 'h cache \<Rightarrow> (int \<times> int \<times> int) list
     \<Rightarrow> (error + string list list) \<times> 'h cache" where
  "get_assets_each H ev b c [] = (Inr [], c)"
| "get_assets_each H ev b c ((tx, ty, tz) # ts) =
     (case get_assets H ev b c tx ty tz of
        (Inl e, c1) \<Rightarrow> (Inl e, c1)
      | (Inr v, c1) \<Rightarrow>
          (case get_assets_each H ev b c1 ts of
             (Inl e, c2) \<Rightarrow> (Inl e, c2)
           | (Inr vs, c2) \<Rightarrow> (Inr (v # vs), c2)))"

text \<open>
  The tile range \<open>[(x, y, zoom) for x in range(tl.x, br.x + 1) for y in range(tl.y, br.y + 1)]\<close>.
\<close>

definition tile_range :: "tile \<Rightarrow> tile \<Rightarrow> int \<Rightarrow> (int \<times> int \<times> int) list" where
  "tile_range tl_tile br_tile zoom =
     concat (map (\<lambda>tx. map (\<lambda>ty. (tx, ty, zoom)) [tile_y tl_tile .. tile_y br_tile])
                 [tile_x tl_tile .. tile_x br_tile])"

text \<open>\<open>warp_bounds src dst box\<close> stands for \<open>rasterio.warp.transform_bounds\<close>.\<close>

definition assets_for_bbox ::
  "('v MosaicJSON \<Rightarrow> 'h) \<Rightarrow> ('h cache \<Rightarrow> 'h cache) \<Rightarrow> (crs \<Rightarrow> crs \<Rightarrow> bbox \<Rightarrow> bbox)
     \<Rightarrow> 'v BaseBackend \<Rightarrow> 'h cache \<Rightarrow> real \<Rightarrow> real \<Rightarrow> real \<Rightarrow> real \<Rightarrow> crs
     \<Rightarrow> (error + string list) \<times> 'h cache" where
  "assets_for_bbox H ev warp_bounds b c xmin ymin xmax ymax coord_crs =
     (case (if coord_crs \<noteq> geographic_crs b
            then warp_bounds coord_crs (geographic_crs b) (xmin, ymin, xmax, ymax)
            else (xmin, ymin, xmax, ymax)) of
        (xmin', ymin', xmax', ymax') \<Rightarrow>
          (let tl_tile = tms_tile (tms b) xmin' ymax' (quadkey_zoom b);
               br_tile = tms_tile (tms b) xmax' ymin' (quadkey_zoom b)
           in case get_assets_each H ev b c (tile_range tl_tile br_tile (quadkey_zoom b)) of
                (Inl e, c1) \<Rightarrow> (Inl e, c1)
              | (Inr vs, c1) \<Rightarrow> (Inr (dict_keys (dict_fromkeys (concat vs))), c1)))"

section \<open>BaseBackend.update\<close>

text \<open>
  The loop over \<open>new_mosaic.tiles.items()\<close>. The document is changed in place, so a pass
  that raises leaves the keys it has already merged: the backend and the cache are returned
  with the outcome.
\<close>

fun update_loop ::
  "('v MosaicJSON \<Rightarrow> 'h) \<Rightarrow> ('h cache \<Rightarrow> 'h cache) \<Rightarrow> 'v BaseBackend \<Rightarrow> 'h cache
     \<Rightarrow> (string \<times> string list) list \<Rightarrow> bool \<Rightarrow> (error + unit) \<times> 'v BaseBackend \<times> 'h cache" where
  "update_loop H ev b c [] add_first = (Inr (), b, c)"
| "update_loop H ev b c ((quadkey, new_assets) # items) add_first =
     (case tms_quadkey_to_tile (tms b) quadkey of
        Inl e \<Rightarrow> (Inl e, b, c)
      | Inr t \<Rightarrow>
          (case get_assets H ev b c (tile_x t) (tile_y t) (tile_z t) of
             (Inl e, c1) \<Rightarrow> (Inl e, b, c1)
           | (Inr assets, c1) \<Rightarrow>
               update_loop H ev
                 (b\<lparr>mosaic_def := (mosaic_def b)
                      \<lparr>tiles := dict_set (tiles (mosaic_def b)) quadkey
                                  (if add_first then new_assets @ assets
                                   else assets @ new_assets)\<rparr>\<rparr>)
                 c1 items add_first))"

text \<open>
  \<open>update\<close>. Three collaborators are outside the sources and are parameters:
  \<open>from_features fs minzoom maxzoom quadkey_zoom\<close> is \<open>MosaicJSON.from_features\<close>, which
  builds the candidate document or raises; \<open>increase_version\<close> is what
  \<open>MosaicJSON._increase_version\<close> does to the version; \<open>write_doc\<close> is the abstract method
  \<open>write(overwrite=True)\<close>, which may raise.
\<close>

definition update ::
  "('v MosaicJSON \<Rightarrow> 'h) \<Rightarrow> ('h cache \<Rightarrow> 'h cache)
     \<Rightarrow> ('f \<Rightarrow> int \<Rightarrow> int \<Rightarrow> int \<Rightarrow> error + 'v MosaicJSON) \<Rightarrow> ('v \<Rightarrow> 'v) \<Rightarrow> ('v BaseBackend \<Rightarrow> error option)
     \<Rightarrow> 'v BaseBackend \<Rightarrow> 'h cache \<Rightarrow> 'f \<Rightarrow> bool \<Rightarrow> (error + unit) \<times> 'v BaseBackend \<times> 'h cache" where
  "update H ev from_features increase_version write_doc b c features add_first =
     (case from_features features (minzoom (mosaic_def b)) (maxzoom (mosaic_def b))
             (quadkey_zoom b) of
        Inl e \<Rightarrow> (Inl e, b, c)
      | Inr new_mosaic \<Rightarrow>
          (case update_loop H ev b c (tiles new_mosaic) add_first of
             (Inl e, b1, c1) \<Rightarrow> (Inl e, b1, c1)
           | (Inr u, b1, c1) \<Rightarrow>
               (case bbox_union (bounds new_mosaic) (bounds (mosaic_def b1)) of
                  (x0, y0, x1, y1) \<Rightarrow>
                    (let b2 = b1\<lparr>mosaic_def := (mosaic_def b1)
                                  \<lparr>version := increase_version (version (mosaic_def b1)),
                                   bounds := (x0, y0, x1, y1),
                                   center := ((x0 + x1) / 2, (y0 + y1) / 2,
                                              minzoom (mosaic_def b1))\<rparr>,
                                backend_bounds := (x0, y0, x1, y1)\<rparr>
                     in case write_doc b2 of
                          Some e \<Rightarrow> (Inl e, b2, c1)
                        | None \<Rightarrow> (Inr (), b2, c1)))))"

section \<open>BaseBackend.tile and BaseBackend.point\<close>

text \<open>
  \<open>tile\<close>. \<open>mosaic_reader\<close> is \<open>rio_tiler.mosaic.mosaic_reader\<close>, handed the asset list and
  the per-asset reader; \<open>read_tile asset x y z\<close> is
  \<open>self.reader(asset, ...).tile(x, y, z)\<close>. Both are external: their exceptions are
  \<open>rio_error\<close>s.
\<close>

definition tile ::
  "('v MosaicJSON \<Rightarrow> 'h) \<Rightarrow> ('h cache \<Rightarrow> 'h cache)
     \<Rightarrow> (string list \<Rightarrow> (string \<Rightarrow> rio_error + 'i) \<Rightarrow> rio_error + 'i \<times> string list)
     \<Rightarrow> (string \<Rightarrow> int \<Rightarrow> int \<Rightarrow> int \<Rightarrow> rio_error + 'i)
     \<Rightarrow> 'v BaseBackend \<Rightarrow> 'h cache \<Rightarrow> int \<Rightarrow> int \<Rightarrow> int \<Rightarrow> bool
     \<Rightarrow> (error + 'i \<times> string list) \<times> 'h cache" where
  "tile H ev mosaic_reader read_tile b c tx ty tz reverse =
     (case get_assets H ev b c tx ty tz of
        (Inl e, c1) \<Rightarrow> (Inl e, c1)
      | (Inr mosaic_assets, c1) \<Rightarrow>
          (if mosaic_assets = [] then (Inl NoAssetFoundError, c1)
           else
             (case mosaic_reader (if reverse then rev mosaic_assets else mosaic_assets)
                     (\<lambda>asset. read_tile asset tx ty tz) of
                Inl e \<Rightarrow> (Inl (ReaderError e), c1)
              | Inr r \<Rightarrow> (Inr r, c1))))"

text \<open>
  \<open>allowed_exceptions\<close> is a tuple of exception classes, and \<open>except allowed_exceptions\<close>
  catches an exception that is an instance of one of them, subclasses included. The errors
  of \<open>rio_tiler\<close> all derive from \<open>RioTilerError\<close>, which derives from \<open>Exception\<close>;
  \<open>OtherClass\<close> stands for any class that no such error is an instance of.
\<close>

datatype exception_class = ExceptionClass | RioTilerErrorClass | PointOutsideBoundsClass
  | TileOutsideBoundsClass | EmptyMosaicErrorClass | OtherClass string

fun isinstance :: "rio_error \<Rightarrow> exception_class \<Rightarrow> bool" where
  "isinstance e ExceptionClass = True"
| "isinstance e RioTilerErrorClass = True"
| "isinstance e PointOutsideBoundsClass = (e = PointOutsideBounds)"
| "isinstance e TileOutsideBoundsClass = (e = TileOutsideBounds)"
| "isinstance e EmptyMosaicErrorClass = (e = EmptyMosaicError)"
| "isinstance e (OtherClass n) = False"

text \<open>
  \<open>rio_tiler.tasks.multi_values\<close>: every asset is read; an exception that
  \<open>allowed_exceptions\<close> catches is dropped, any other one is raised, and the values are
  collected in a dictionary keyed by asset.
\<close>

fun multi_values ::
  "string list \<Rightarrow> (string \<Rightarrow> rio_error + 'p) \<Rightarrow> exception_class list \<Rightarrow> (string, 'p) dict
     \<Rightarrow> rio_error + (string, 'p) dict" where
  "multi_values [] reader allowed d = Inr d"
| "multi_values (asset # assets) reader allowed d =
     (case reader asset of
        Inl e \<Rightarrow> (if list_ex (isinstance e) allowed
                  then multi_values assets reader allowed d else Inl e)
      | Inr v \<Rightarrow> multi_values assets reader allowed (dict_set d asset v))"

text \<open>
  \<open>point\<close>. \<open>read_point asset lon lat crs\<close> is
  \<open>self.reader(asset, ...).point(lon, lat, coord_crs=crs)\<close>; \<open>allowed_exceptions\<close> is the
  entry of that name in \<open>kwargs\<close>, \<open>None\<close> when the caller passed none. The assets are
  resolved by \<open>self.assets_for_point(lon, lat)\<close>, whose \<open>coord_crs\<close> is left at its default.
\<close>

definition point ::
  "('v MosaicJSON \<Rightarrow> 'h) \<Rightarrow> ('h cache \<Rightarrow> 'h cache) \<Rightarrow> (crs \<Rightarrow> crs \<Rightarrow> real \<times> real \<Rightarrow> real \<times> real)
     \<Rightarrow> (string \<Rightarrow> real \<Rightarrow> real \<Rightarrow> crs \<Rightarrow> rio_error + 'p)
     \<Rightarrow> 'v BaseBackend \<Rightarrow> 'h cache \<Rightarrow> real \<Rightarrow> real \<Rightarrow> bool \<Rightarrow> crs
     \<Rightarrow> exception_class list option \<Rightarrow> (error + (string \<times> 'p) list) \<times> 'h cache" where
  "point H ev warp read_point b c lon lat reverse coord_crs allowed_exceptions =
     (case assets_for_point H ev warp b c lon lat WGS84_CRS of
        (Inl e, c1) \<Rightarrow> (Inl e, c1)
      | (Inr mosaic_assets, c1) \<Rightarrow>
          (if mosaic_assets = [] then (Inl NoAssetFoundError, c1)
           else
             (case multi_values (if reverse then rev mosaic_assets else mosaic_assets)
                     (\<lambda>asset.
                         case transform_point warp lon lat coord_crs (geographic_crs b) of
                           (lon', lat') \<Rightarrow> read_point asset lon' lat' (geographic_crs b))
                     (case allowed_exceptions of
                        None \<Rightarrow> [PointOutsideBoundsClass]
                      | Some allowed \<Rightarrow> allowed)
                     [] of
                Inl e \<Rightarrow> (Inl (ReaderError e), c1)
              | Inr d \<Rightarrow> (Inr d, c1))))"

section \<open>What the theorems assume of the collaborators\<close>

text \<open>
  Two documents have the same content when all their fields agree, the tiles as a mapping
  (the order of the keys does not count).
\<close>

definition same_content :: "'v MosaicJSON \<Rightarrow> 'v MosaicJSON \<Rightarrow> bool" where
  "same_content d d' \<longleftrightarrow>
     version d = version d' \<and> minzoom d = minzoom d' \<and> maxzoom d = maxzoom d' \<and>
     stored_quadkey_zoom d = stored_quadkey_zoom d' \<and> bounds d = bounds d' \<and>
     center d = center d' \<and> name d = name d' \<and> map_of (tiles d) = map_of (tiles d')"

text \<open>
  Modelled from the spec: \<open>get_hash\<close> of \<open>cogeo_mosaic.backends.utils\<close> is not among the
  sources. The specification asks of the fingerprint that it is a deterministic function
  of the full content of the document that changes whenever the tiles, the bounds, the
  version or the zoom fields change: two documents with the same fingerprint have the same
  content.
\<close>

definition collision_free :: "('v MosaicJSON \<Rightarrow> 'h) \<Rightarrow> bool" where
  "collision_free H \<longleftrightarrow> (\<forall>d d'. H d = H d' \<longrightarrow> same_content d d')"

text \<open>Expiry and eviction only remove entries.\<close>

definition shrinking :: "('h cache \<Rightarrow> 'h cache) \<Rightarrow> bool" where
  "shrinking ev \<longleftrightarrow> (\<forall>c. ev c \<subseteq>\<^sub>m c)"

text \<open>
  A cache is sound for the backends on a tile matrix set \<open>T\<close> when every entry is what the
  body of \<open>get_assets\<close> returns for every such backend whose key it is; it is sound for one
  backend when this holds of the keys of that backend.
\<close>

definition cache_sound :: "('v MosaicJSON \<Rightarrow> 'h) \<Rightarrow> TileMatrixSet \<Rightarrow> 'h cache \<Rightarrow> bool" where
  "cache_sound H T c \<longleftrightarrow>
     (\<forall>b tx ty tz v.
         tms b = T \<longrightarrow> c (hashkey H b tx ty tz) = Some v \<longrightarrow> get_assets_wrapped b tx ty tz = Inr v)"

definition cache_sound_for :: "('v MosaicJSON \<Rightarrow> 'h) \<Rightarrow> 'v BaseBackend \<Rightarrow> 'h cache \<Rightarrow> bool" where
  "cache_sound_for H b c \<longleftrightarrow>
     (\<forall>tx ty tz v. c (hashkey H b tx ty tz) = Some v \<longrightarrow> get_assets_wrapped b tx ty tz = Inr v)"

text \<open>
  The candidate index is built at the index zoom of the backend: its keys are distinct (it
  is a dictionary), and each is the quadkey of a tile at that zoom, so that
  \<open>find_quadkeys\<close> of the tile of a key resolves to the key itself.
\<close>

definition keys_at_zoom :: "TileMatrixSet \<Rightarrow> int \<Rightarrow> (string, string list) dict \<Rightarrow> bool" where
  "keys_at_zoom T qz items \<longleftrightarrow>
     distinct (map fst items) \<and>
     (\<forall>k \<in> fst ` set items.
         \<exists>t. tms_quadkey_to_tile T k = Inr t \<and> find_quadkeys T t qz = Inr [k])"

text \<open>The list \<open>update\<close> stores for a key, from the new assets and the resolved ones.\<close>

definition merge_assets :: "bool \<Rightarrow> string list \<Rightarrow> string list \<Rightarrow> string list" where
  "merge_assets add_first new_assets assets =
     (if add_first then new_assets @ assets else assets @ new_assets)"

text \<open>A box contains another one when it reaches at least as far on all four sides.\<close>

definition bbox_contains :: "bbox \<Rightarrow> bbox \<Rightarrow> bool" where
  "bbox_contains outer inner =
     (case outer of (x0, y0, x1, y1) \<Rightarrow>
        (case inner of (u0, v0, u1, v1) \<Rightarrow> x0 \<le> u0 \<and> y0 \<le> v0 \<and> u1 \<le> x1 \<and> v1 \<le> y1))"

text \<open>
  The outcome of a list of calls made in order: the first exception, or all the values.
\<close>

fun all_or_first_error :: "('e + 'a) list \<Rightarrow> 'e + 'a list" where
  "all_or_first_error [] = Inr []"
| "all_or_first_error (Inl e # rs) = Inl e"
| "all_or_first_error (Inr v # rs) =
     (case all_or_first_error rs of Inl e \<Rightarrow> Inl e | Inr vs \<Rightarrow> Inr (v # vs))"

section \<open>A concrete mosaic\<close>

text \<open>
  Collaborators and documents to run the backend on: a fingerprint that is the content
  itself, a cache that keeps every entry, a mosaic at index zoom 4 on the quadtree grid,
  a builder of candidate documents that is handed the candidate index and its bounds, the
  successor as version step and a \<open>write\<close> that succeeds.
\<close>

definition content_fingerprint :: "'v MosaicJSON \<Rightarrow> 'v MosaicJSON" where
  "content_fingerprint d = d"

definition keep_all :: "'h cache \<Rightarrow> 'h cache" where
  "keep_all c = c"

definition example_mosaic :: "(string, string list) dict \<Rightarrow> nat MosaicJSON" where
  "example_mosaic ts =
     \<lparr> version = 1, minzoom = 4, maxzoom = 8, stored_quadkey_zoom = None,
       bounds = (-10, -10, 10, 10), center = (0, 0, 4), tiles = ts, name = None \<rparr>"

definition example_backend :: "(string, string list) dict \<Rightarrow> nat BaseBackend" where
  "example_backend ts =
     \<lparr> input = ''mosaic.json'', mosaic_def = example_mosaic ts, tms = quadtree_tms grid_tile,
       geographic_crs = WGS84_CRS, backend_bounds = (-10, -10, 10, 10) \<rparr>"

definition example_from_features ::
  "(string, string list) dict \<times> bbox \<Rightarrow> int \<Rightarrow> int \<Rightarrow> int \<Rightarrow> error + nat MosaicJSON" where
  "example_from_features fs mn mx qz =
     Inr \<lparr> version = 1, minzoom = mn, maxzoom = mx, stored_quadkey_zoom = Some qz,
           bounds = snd fs, center = (0, 0, mn), tiles = fst fs, name = None \<rparr>"

definition example_update ::
  "(string, string list) dict \<Rightarrow> (string, string list) dict \<Rightarrow> bool
     \<Rightarrow> (error + unit) \<times> nat BaseBackend \<times> nat MosaicJSON cache" where
  "example_update ts new_tiles add_first =
     update content_fingerprint keep_all example_from_features Suc (\<lambda>b. None)
       (example_backend ts) Map.empty (new_tiles, (5, -20, 30, 2)) add_first"

text \<open>
  Four neighbouring cells at zoom 4, columns 8 and 9, rows 0 and 1, with overlapping asset
  lists.
\<close>

definition example_tiles :: "(string, string list) dict" where
  "example_tiles =
     [(''1000'', [''a.tif'', ''b.tif'']), (''1002'', [''b.tif'', ''c.tif'']),
      (''1001'', [''a.tif'', ''d.tif'']), (''1003'', [''d.tif''])]"

text \<open>
  The cache after one call of \<open>get_assets\<close> for the tile of key \<open>0123\<close>, and an update that
  starts on it.
\<close>

definition example_warm_cache :: "nat MosaicJSON cache" where
  "example_warm_cache =
     snd (get_assets content_fingerprint keep_all (example_backend [(''0123'', [''a.tif''])])
            Map.empty 5 3 4)"

definition example_update_warm :: "(error + unit) \<times> nat BaseBackend \<times> nat MosaicJSON cache" where
  "example_update_warm =
     update content_fingerprint keep_all example_from_features Suc (\<lambda>b. None)
       (example_backend [(''0123'', [''a.tif''])]) example_warm_cache
       ([(''0123'', [''b.tif''])], (5, -20, 30, 2)) True"

text \<open>
  A per-asset point reader for which the point is outside the bounds of \<open>a.tif\<close> and every
  other asset holds the value 7, and a stand-in for the reprojection from
  \<open>WEB_MERCATOR_CRS\<close> to \<open>WGS84_CRS\<close> that scales the coordinates.
\<close>

definition example_read_point :: "string \<Rightarrow> real \<Rightarrow> real \<Rightarrow> crs \<Rightarrow> rio_error + nat" where
  "example_read_point asset lon lat coord_crs =
     (if asset = ''a.tif'' then Inl PointOutsideBounds else Inr 7)"

definition example_warp :: "crs \<Rightarrow> crs \<Rightarrow> real \<times> real \<Rightarrow> real \<times> real" where
  "example_warp src dst p =
     (if src = WEB_MERCATOR_CRS \<and> dst = WGS84_CRS then (fst p / 100000, snd p / 100000) else p)"

section \<open>Facts about find_quadkeys\<close>

lemma quadtree_parent:
  "tms_parent (quadtree_tms f) t =
     (if tile_z t = 0 then [] else [Tile (tile_x t div 2) (tile_y t div 2) (tile_z t - 1)])"
  by (simp add: quadtree_tms_def)

lemma quadtree_children:
  "tms_children (quadtree_tms f) t =
     [Tile (2 * tile_x t) (2 * tile_y t) (tile_z t + 1),
      Tile (2 * tile_x t) (2 * tile_y t + 1) (tile_z t + 1),
      Tile (2 * tile_x t + 1) (2 * tile_y t) (tile_z t + 1),
      Tile (2 * tile_x t + 1) (2 * tile_y t + 1) (tile_z t + 1)]"
  by (simp add: quadtree_tms_def)

lemma quadtree_quadkey:
  "tms_quadkey (quadtree_tms f) t = quadkey_digits (tile_x t) (tile_y t) (nat (tile_z t))"
  by (simp add: quadtree_tms_def)

lemma quadtree_quadkey_to_tile:
  "tms_quadkey_to_tile (quadtree_tms f) qk =
     (case quadkey_xy qk of
        Inl e \<Rightarrow> Inl e
      | Inr (tx, ty) \<Rightarrow> Inr (Tile tx ty (int (length qk))))"
  by (simp add: quadtree_tms_def)

lemma quadtree_tile: "tms_tile (quadtree_tms f) = f"
  by (simp add: quadtree_tms_def)

lemma parent_walk_single:
  assumes "one_parent_above T q"
  shows "q + int n = tile_z t \<Longrightarrow>
         \<exists>a. ancestors T n t = [a] \<and> tile_z a = q \<and> parent_walk T n t = Inr a"
proof (induction n arbitrary: t)
  case 0
  then show ?case by simp
next
  case (Suc n)
  from Suc.prems have "q < tile_z t" by simp
  with assms obtain p where p: "tms_parent T t = [p]" "tile_z p = tile_z t - 1"
    unfolding one_parent_above_def by blast
  from Suc.prems p have "q + int n = tile_z p" by simp
  from Suc.IH [OF this] obtain a where
    "ancestors T n p = [a]" "tile_z a = q" "parent_walk T n p = Inr a" by blast
  with p show ?case by simp
qed

lemma one_parent_above_quadtree: "0 \<le> q \<Longrightarrow> one_parent_above (quadtree_tms f) q"
  by (simp add: one_parent_above_def quadtree_parent)

text \<open>
  C1. In a tile matrix set where every tile above the index zoom \<open>q\<close> has exactly one
  parent, \<open>find_quadkeys\<close> of a tile finer than \<open>q\<close> returns exactly one quadkey, the one of
  the only ancestor of the tile at zoom \<open>q\<close>; of a tile at zoom \<open>q\<close> it returns exactly the
  quadkey of the tile itself.
\<close>

theorem find_quadkeys_ancestor:
  assumes "one_parent_above T q"
  shows "(q < tile_z t \<longrightarrow>
            (\<exists>a. ancestors T (nat (tile_z t - q)) t = [a] \<and> tile_z a = q \<and>
                 find_quadkeys T t q = Inr [tms_quadkey T a])) \<and>
         (tile_z t = q \<longrightarrow> find_quadkeys T t q = Inr [tms_quadkey T t])"
proof (intro conjI impI)
  assume lt: "q < tile_z t"
  then have "q + int (nat (tile_z t - q)) = tile_z t" by simp
  from parent_walk_single [OF assms this] obtain a where
    a: "ancestors T (nat (tile_z t - q)) t = [a]" "tile_z a = q"
       "parent_walk T (nat (tile_z t - q)) t = Inr a" by blast
  from lt a(3) have "find_quadkeys T t q = Inr [tms_quadkey T a]"
    by (simp add: find_quadkeys_def)
  with a show "\<exists>a. ancestors T (nat (tile_z t - q)) t = [a] \<and> tile_z a = q \<and>
                 find_quadkeys T t q = Inr [tms_quadkey T a]" by blast
next
  assume "tile_z t = q"
  then show "find_quadkeys T t q = Inr [tms_quadkey T t]"
    by (simp add: find_quadkeys_def)
qed

theorem find_quadkeys_ancestor_witness:
  "one_parent_above (quadtree_tms grid_tile) 1 \<and>
   ancestors (quadtree_tms grid_tile) 2 (Tile 5 3 3) = [Tile 1 0 1] \<and>
   find_quadkeys (quadtree_tms grid_tile) (Tile 5 3 3) 1 = Inr [''1''] \<and>
   find_quadkeys (quadtree_tms grid_tile) (Tile 1 0 1) 1 = Inr [''1'']"
proof -
  have h: "one_parent_above (quadtree_tms grid_tile) 1"
    by (simp add: one_parent_above_quadtree)
  have a: "ancestors (quadtree_tms grid_tile) 2 (Tile 5 3 3) = [Tile 1 0 1]"
    by (simp add: numeral_2_eq_2 quadtree_parent)
  have k: "tms_quadkey (quadtree_tms grid_tile) (Tile 1 0 1) = ''1''"
    by (simp add: quadtree_quadkey digit_char_def)
  from find_quadkeys_ancestor [OF h, of "Tile 5 3 3"] a k
  have 1: "find_quadkeys (quadtree_tms grid_tile) (Tile 5 3 3) 1 = Inr [''1'']" by simp
  from find_quadkeys_ancestor [OF h, of "Tile 1 0 1"] k
  have 2: "find_quadkeys (quadtree_tms grid_tile) (Tile 1 0 1) 1 = Inr [''1'']" by simp
  from h a 1 2 show ?thesis by simp
qed

text \<open>
  On the quadtree the ancestor has a closed form, and every string of the digits 0 to 3
  is the quadkey of the tile \<open>quadkey_to_tile\<close> returns for it: a candidate index whose
  keys are such strings of the length of the index zoom meets \<open>keys_at_zoom\<close>.
\<close>

lemma ancestors_quadtree:
  "int n \<le> z \<Longrightarrow>
     ancestors (quadtree_tms f) n (Tile tx ty z) = [Tile (tx div 2 ^ n) (ty div 2 ^ n) (z - int n)]"
proof (induction n arbitrary: tx ty z)
  case 0
  then show ?case by simp
next
  case (Suc n)
  then have "int n \<le> z - 1" and "z \<noteq> 0" by simp_all
  from Suc.IH [OF this(1), of "tx div 2" "ty div 2"] \<open>z \<noteq> 0\<close> show ?case
    by (simp add: quadtree_parent zdiv_zmult2_eq)
qed

lemma find_quadkeys_quadtree:
  assumes "0 \<le> q" and "q \<le> z"
  shows "find_quadkeys (quadtree_tms f) (Tile tx ty z) q =
           Inr [tms_quadkey (quadtree_tms f)
                  (Tile (tx div 2 ^ nat (z - q)) (ty div 2 ^ nat (z - q)) q)]"
proof (cases "q < z")
  case True
  from parent_walk_single [OF one_parent_above_quadtree [OF assms(1)], of "nat (z - q)" "Tile tx ty z" f]
    True obtain a where
    a: "ancestors (quadtree_tms f) (nat (z - q)) (Tile tx ty z) = [a]"
       "parent_walk (quadtree_tms f) (nat (z - q)) (Tile tx ty z) = Inr a" by auto
  from ancestors_quadtree [of "nat (z - q)" z f tx ty] True a(1) assms(1)
  have "a = Tile (tx div 2 ^ nat (z - q)) (ty div 2 ^ nat (z - q)) q" by simp
  with True a(2) show ?thesis by (simp add: find_quadkeys_def)
next
  case False
  with assms have "z = q" by simp
  then show ?thesis by (simp add: find_quadkeys_def)
qed

text \<open>
  Below the coarsest zoom there is no parent: a quadkey zoom under 0, which no document
  holds, makes the walk raise.
\<close>

lemma find_quadkeys_below_coarsest:
  "find_quadkeys (quadtree_tms f) (Tile 0 0 0) (- 1) = Inl IndexError"
  by (simp add: find_quadkeys_def quadtree_parent)

lemma bit_add_higher_power:
  fixes a :: int
  assumes "m < n"
  shows "bit (a + 2 ^ n) m = bit a m"
proof -
  have d: "(2::int) ^ m dvd 2 ^ n" using assms by (simp add: le_imp_power_dvd)
  have "(2::int) ^ n div 2 ^ m = 2 ^ (n - m)" using assms by (simp add: power_diff)
  moreover have "even ((2::int) ^ (n - m))" using assms by simp
  ultimately have "even ((2::int) ^ n div 2 ^ m)" by simp
  then show ?thesis
    by (simp add: bit_iff_odd div_plus_div_distrib_dvd_right [OF d])
qed

lemma quadkey_digits_add_power:
  "n \<le> m \<Longrightarrow> quadkey_digits (tx + 2 ^ m) ty n = quadkey_digits tx ty n"
  "n \<le> m \<Longrightarrow> quadkey_digits tx (ty + 2 ^ m) n = quadkey_digits tx ty n"
  by (induction n) (simp_all add: bit_add_higher_power)

lemma bit_below_power:
  fixes a :: int
  assumes "0 \<le> a" and "a < 2 ^ n"
  shows "\<not> bit a n" and "bit (a + 2 ^ n) n"
proof -
  from assms have z: "a div 2 ^ n = 0" by simp
  then show "\<not> bit a n" by (simp add: bit_iff_odd)
  have "(a + 2 ^ n) div 2 ^ n = a div 2 ^ n + 1" by simp
  with z show "bit (a + 2 ^ n) n" by (simp add: bit_iff_odd)
qed

lemma quadkey_roundtrip:
  "set k \<subseteq> set ''0123'' \<Longrightarrow>
     \<exists>tx ty. quadkey_xy k = Inr (tx, ty) \<and> 0 \<le> tx \<and> tx < 2 ^ length k \<and>
             0 \<le> ty \<and> ty < 2 ^ length k \<and> quadkey_digits tx ty (length k) = k"
proof (induction k)
  case Nil
  then show ?case by simp
next
  case (Cons d ds)
  then obtain tx ty where
    xy: "quadkey_xy ds = Inr (tx, ty)" "0 \<le> tx" "tx < 2 ^ length ds" "0 \<le> ty" "ty < 2 ^ length ds"
        "quadkey_digits tx ty (length ds) = ds" by auto
  from Cons.prems have "d = CHR ''0'' \<or> d = CHR ''1'' \<or> d = CHR ''2'' \<or> d = CHR ''3''" by simp
  then show ?case
    using xy bit_below_power [OF xy(2,3)] bit_below_power [OF xy(4,5)]
    by (auto simp: digit_char_def quadkey_digits_add_power)
qed

lemma keys_at_zoom_quadtree:
  assumes "distinct (map fst items)"
    and "\<forall>k \<in> fst ` set items. set k \<subseteq> set ''0123'' \<and> int (length k) = qz"
  shows "keys_at_zoom (quadtree_tms f) qz items"
  unfolding keys_at_zoom_def
proof (intro conjI ballI)
  show "distinct (map fst items)" by (rule assms(1))
next
  fix k assume "k \<in> fst ` set items"
  with assms(2) have k: "set k \<subseteq> set ''0123''" "int (length k) = qz" by auto
  from quadkey_roundtrip [OF k(1)] obtain tx ty where
    "quadkey_xy k = Inr (tx, ty)" "quadkey_digits tx ty (length k) = k" by blast
  with k(2) have "tms_quadkey_to_tile (quadtree_tms f) k = Inr (Tile tx ty qz) \<and>
                  find_quadkeys (quadtree_tms f) (Tile tx ty qz) qz = Inr [k]"
    by (auto simp: quadtree_quadkey_to_tile find_quadkeys_def quadtree_quadkey)
  then show "\<exists>t. tms_quadkey_to_tile (quadtree_tms f) k = Inr t \<and>
                 find_quadkeys (quadtree_tms f) t qz = Inr [k]" by blast
qed

section \<open>Facts about dictionaries\<close>

lemma dict_set_keys:
  "map fst (dict_set d k v) = (if k \<in> set (map fst d) then map fst d else map fst d @ [k])"
  by (induction d) (auto simp: rev_image_eqI)

lemma map_of_dict_set: "map_of (dict_set d k v) = (map_of d)(k \<mapsto> v)"
  by (induction d) (auto simp: fun_eq_iff)

lemma dict_get_dict_set:
  "dict_get (dict_set d k v) k' dflt = (if k' = k then v else dict_get d k' dflt)"
  by (simp add: dict_get_def map_of_dict_set)

lemma distinct_dict_set: "distinct (map fst d) \<Longrightarrow> distinct (map fst (dict_set d k v))"
  by (simp add: dict_set_keys)

lemma fromkeys_fold:
  "map fst (fold (\<lambda>k d. dict_set d k ()) ks d0) =
     map fst d0 @ filter (\<lambda>k. k \<notin> set (map fst d0)) (dedupe_first ks)"
proof (induction ks arbitrary: d0)
  case Nil
  then show ?case by simp
next
  case (Cons k ks)
  show ?case
  proof (cases "k \<in> set (map fst d0)")
    case True
    have "filter (\<lambda>k'. k' \<notin> set (map fst d0)) (filter (\<lambda>b. b \<noteq> k) (dedupe_first ks)) =
          filter (\<lambda>k'. k' \<notin> set (map fst d0)) (dedupe_first ks)"
      unfolding filter_filter using True by (intro filter_cong) auto
    with True show ?thesis
      by (simp add: Cons.IH dict_set_keys del: set_map)
  next
    case False
    have "filter (\<lambda>k'. k' \<notin> set (map fst d0 @ [k])) (dedupe_first ks) =
          filter (\<lambda>k'. k' \<notin> set (map fst d0)) (filter (\<lambda>b. b \<noteq> k) (dedupe_first ks))"
      unfolding filter_filter by (intro filter_cong) auto
    with False show ?thesis
      by (simp add: Cons.IH dict_set_keys del: set_map set_append)
  qed
qed

lemma dict_keys_fromkeys: "dict_keys (dict_fromkeys ks) = dedupe_first ks"
  by (simp add: dict_keys_def dict_fromkeys_def fromkeys_fold)

lemma set_dedupe_first: "set (dedupe_first xs) = set xs"
  by (induction xs) auto

lemma distinct_dedupe_first: "distinct (dedupe_first xs)"
  by (induction xs) (auto simp: set_dedupe_first)

lemma dedupe_first_distinct: "distinct xs \<Longrightarrow> dedupe_first xs = xs"
  by (induction xs) (auto simp: set_dedupe_first filter_id_conv)

lemma count_list_distinct: "distinct xs \<Longrightarrow> count_list xs a = (if a \<in> set xs then 1 else 0)"
  by (induction xs) auto

lemma count_dedupe_first: "count_list (dedupe_first xs) a = (if a \<in> set xs then 1 else 0)"
  by (simp add: count_list_distinct distinct_dedupe_first set_dedupe_first)

section \<open>Facts about the cache\<close>

lemma quadkey_zoom_same_content:
  "same_content (mosaic_def b) (mosaic_def b') \<Longrightarrow> quadkey_zoom b = quadkey_zoom b'"
  by (auto simp: same_content_def quadkey_zoom_def split: option.splits)

lemma get_assets_wrapped_same_content:
  assumes "same_content (mosaic_def b) (mosaic_def b')" and "tms b = tms b'"
  shows "get_assets_wrapped b tx ty tz = get_assets_wrapped b' tx ty tz"
proof -
  from assms(1) have "map_of (tiles (mosaic_def b)) = map_of (tiles (mosaic_def b'))"
    by (simp add: same_content_def)
  then have d: "(\<lambda>qk. dict_get (tiles (mosaic_def b)) qk []) =
                 (\<lambda>qk. dict_get (tiles (mosaic_def b')) qk [])"
    by (simp add: dict_get_def fun_eq_iff)
  have q: "quadkey_zoom b = quadkey_zoom b'"
    by (rule quadkey_zoom_same_content [OF assms(1)])
  show ?thesis
    unfolding get_assets_wrapped_def by (simp only: d q assms(2))
qed

lemma cache_sound_shrink:
  assumes "shrinking ev" and "cache_sound H T c"
  shows "cache_sound H T (ev c)"
proof -
  from assms(1) have "ev c \<subseteq>\<^sub>m c" by (simp add: shrinking_def)
  then have "\<And>k v. ev c k = Some v \<Longrightarrow> c k = Some v"
    by (auto simp: map_le_def dom_def)
  with assms(2) show ?thesis unfolding cache_sound_def by blast
qed

lemma cache_sound_store:
  assumes "collision_free H" and "cache_sound H T c" and "tms b = T"
    and "get_assets_wrapped b tx ty tz = Inr v"
  shows "cache_sound H T (c(hashkey H b tx ty tz \<mapsto> v))"
  unfolding cache_sound_def
proof (intro allI impI)
  fix b' :: "'a BaseBackend" and tx' ty' tz' v'
  assume T: "tms b' = T"
    and hit: "(c(hashkey H b tx ty tz \<mapsto> v)) (hashkey H b' tx' ty' tz') = Some v'"
  show "get_assets_wrapped b' tx' ty' tz' = Inr v'"
  proof (cases "hashkey H b' tx' ty' tz' = hashkey H b tx ty tz")
    case True
    then have "H (mosaic_def b') = H (mosaic_def b)" and xyz: "tx' = tx" "ty' = ty" "tz' = tz"
      by (simp_all add: hashkey_def mosaicid_def)
    with assms(1) have "same_content (mosaic_def b') (mosaic_def b)"
      by (simp add: collision_free_def)
    from get_assets_wrapped_same_content [OF this] T assms(3)
    have "get_assets_wrapped b' tx ty tz = get_assets_wrapped b tx ty tz" by simp
    with True hit assms(4) xyz show ?thesis by simp
  next
    case False
    with hit have "c (hashkey H b' tx' ty' tz') = Some v'" by simp
    with assms(2) T show ?thesis unfolding cache_sound_def by blast
  qed
qed

lemma get_assets_sound:
  assumes "collision_free H" and "shrinking ev" and "cache_sound H T c" and "tms b = T"
  shows "fst (get_assets H ev b c tx ty tz) = get_assets_wrapped b tx ty tz \<and>
         cache_sound H T (snd (get_assets H ev b c tx ty tz))"
proof -
  have s1: "cache_sound H T (ev c)" by (rule cache_sound_shrink [OF assms(2,3)])
  show ?thesis
  proof (cases "ev c (hashkey H b tx ty tz)")
    case (Some v)
    with s1 assms(4) have "get_assets_wrapped b tx ty tz = Inr v"
      unfolding cache_sound_def by blast
    with Some s1 show ?thesis by (simp add: get_assets_def)
  next
    case None
    show ?thesis
    proof (cases "get_assets_wrapped b tx ty tz")
      case (Inl e)
      with None s1 show ?thesis by (simp add: get_assets_def)
    next
      case (Inr v)
      from cache_sound_store [OF assms(1) s1 assms(4) Inr]
      have "cache_sound H T (ev ((ev c)(hashkey H b tx ty tz \<mapsto> v)))"
        by (rule cache_sound_shrink [OF assms(2)])
      with None Inr show ?thesis by (simp add: get_assets_def)
    qed
  qed
qed

lemma cache_sound_for_shrink:
  assumes "shrinking ev" and "cache_sound_for H b c"
  shows "cache_sound_for H b (ev c)"
proof -
  from assms(1) have "ev c \<subseteq>\<^sub>m c" by (simp add: shrinking_def)
  then have "\<And>k v. ev c k = Some v \<Longrightarrow> c k = Some v"
    by (auto simp: map_le_def dom_def)
  with assms(2) show ?thesis unfolding cache_sound_for_def by blast
qed

lemma cache_sound_for_store:
  assumes "cache_sound_for H b c" and "get_assets_wrapped b tx ty tz = Inr v"
  shows "cache_sound_for H b (c(hashkey H b tx ty tz \<mapsto> v))"
  using assms unfolding cache_sound_for_def by (auto simp: hashkey_def)

lemma get_assets_sound_for:
  assumes "shrinking ev" and "cache_sound_for H b c"
  shows "fst (get_assets H ev b c tx ty tz) = get_assets_wrapped b tx ty tz \<and>
         cache_sound_for H b (snd (get_assets H ev b c tx ty tz))"
proof -
  have s1: "cache_sound_for H b (ev c)" by (rule cache_sound_for_shrink [OF assms])
  show ?thesis
  proof (cases "ev c (hashkey H b tx ty tz)")
    case (Some v)
    with s1 have "get_assets_wrapped b tx ty tz = Inr v"
      unfolding cache_sound_for_def by blast
    with Some s1 show ?thesis by (simp add: get_assets_def)
  next
    case None
    show ?thesis
    proof (cases "get_assets_wrapped b tx ty tz")
      case (Inl e)
      with None s1 show ?thesis by (simp add: get_assets_def)
    next
      case (Inr v)
      from cache_sound_for_store [OF s1 Inr]
      have "cache_sound_for H b (ev ((ev c)(hashkey H b tx ty tz \<mapsto> v)))"
        by (rule cache_sound_for_shrink [OF assms(1)])
      with None Inr show ?thesis by (simp add: get_assets_def)
    qed
  qed
qed

lemma cache_sound_imp_for: "cache_sound H (tms b) c \<Longrightarrow> cache_sound_for H b c"
  unfolding cache_sound_def cache_sound_for_def by blast

lemma cache_sound_empty: "cache_sound H T Map.empty"
  by (simp add: cache_sound_def)

section \<open>Facts about the update loop\<close>

lemma update_loop_tiles_only:
  "update_loop H ev b c items add_first = (r, b', c') \<Longrightarrow>
     \<exists>ts. b' = b\<lparr>mosaic_def := (mosaic_def b)\<lparr>tiles := ts\<rparr>\<rparr>"
proof (induction items arbitrary: b c)
  case Nil
  then have "b' = b" by simp
  then have "b' = b\<lparr>mosaic_def := (mosaic_def b)\<lparr>tiles := tiles (mosaic_def b)\<rparr>\<rparr>" by simp
  then show ?case by blast
next
  case (Cons item items)
  obtain k new where item: "item = (k, new)" by (cases item)
  show ?case
  proof (cases "tms_quadkey_to_tile (tms b) k")
    case (Inl e)
    with Cons.prems item have "b' = b" by simp
    then have "b' = b\<lparr>mosaic_def := (mosaic_def b)\<lparr>tiles := tiles (mosaic_def b)\<rparr>\<rparr>" by simp
    then show ?thesis by blast
  next
    case (Inr t)
    obtain ra c1 where g: "get_assets H ev b c (tile_x t) (tile_y t) (tile_z t) = (ra, c1)"
      by (cases "get_assets H ev b c (tile_x t) (tile_y t) (tile_z t)")
    show ?thesis
    proof (cases ra)
      case (Inl e)
      with Cons.prems item Inr g have "b' = b" by simp
      then have "b' = b\<lparr>mosaic_def := (mosaic_def b)\<lparr>tiles := tiles (mosaic_def b)\<rparr>\<rparr>" by simp
      then show ?thesis by blast
    next
      case (Inr assets)
      let ?b1 = "b\<lparr>mosaic_def := (mosaic_def b)
                      \<lparr>tiles := dict_set (tiles (mosaic_def b)) k
                                  (if add_first then new @ assets else assets @ new)\<rparr>\<rparr>"
      from Cons.prems item \<open>tms_quadkey_to_tile (tms b) k = Inr t\<close> g Inr
      have "update_loop H ev ?b1 c1 items add_first = (r, b', c')" by simp
      from Cons.IH [OF this] obtain ts where
        "b' = ?b1\<lparr>mosaic_def := (mosaic_def ?b1)\<lparr>tiles := ts\<rparr>\<rparr>" by blast
      then have "b' = b\<lparr>mosaic_def := (mosaic_def b)\<lparr>tiles := ts\<rparr>\<rparr>" by simp
      then show ?thesis by blast
    qed
  qed
qed

lemma quadkey_zoom_tiles_update:
  "quadkey_zoom (b\<lparr>mosaic_def := (mosaic_def b)\<lparr>tiles := ts\<rparr>\<rparr>) = quadkey_zoom b"
  by (simp add: quadkey_zoom_def split: option.splits)

lemma get_assets_wrapped_key:
  assumes "find_quadkeys (tms b) t (quadkey_zoom b) = Inr [k]"
  shows "get_assets_wrapped b (tile_x t) (tile_y t) (tile_z t) =
           Inr (dedupe_first (dict_get (tiles (mosaic_def b)) k []))"
  using assms by (simp add: get_assets_wrapped_def dict_keys_fromkeys)

lemma update_loop_merges:
  assumes "collision_free H" and "shrinking ev"
  shows "cache_sound H (tms b) c \<Longrightarrow> keys_at_zoom (tms b) (quadkey_zoom b) items \<Longrightarrow>
     \<exists>b' c'. update_loop H ev b c items add_first = (Inr (), b', c') \<and>
        cache_sound H (tms b) c' \<and>
        (\<forall>k. map_of (tiles (mosaic_def b')) k =
              (case map_of items k of
                 None \<Rightarrow> map_of (tiles (mosaic_def b)) k
               | Some new_assets \<Rightarrow>
                   Some (merge_assets add_first new_assets
                           (dedupe_first (dict_get (tiles (mosaic_def b)) k [])))))"
proof (induction items arbitrary: b c)
  case Nil
  then show ?case by simp
next
  case (Cons item items)
  obtain k new where item: "item = (k, new)" by (cases item)
  from Cons.prems(2) item obtain t where
    t: "tms_quadkey_to_tile (tms b) k = Inr t" "find_quadkeys (tms b) t (quadkey_zoom b) = Inr [k]"
    and dk: "k \<notin> fst ` set items" "distinct (map fst items)"
    and rest: "\<forall>k' \<in> fst ` set items. \<exists>t. tms_quadkey_to_tile (tms b) k' = Inr t \<and>
                 find_quadkeys (tms b) t (quadkey_zoom b) = Inr [k']"
    unfolding keys_at_zoom_def by auto
  let ?old = "dedupe_first (dict_get (tiles (mosaic_def b)) k [])"
  obtain c1 where g: "get_assets H ev b c (tile_x t) (tile_y t) (tile_z t) = (Inr ?old, c1)"
    and s1: "cache_sound H (tms b) c1"
    using get_assets_sound [OF assms Cons.prems(1) refl, of "tile_x t" "tile_y t" "tile_z t"]
          get_assets_wrapped_key [OF t(2)]
    by (cases "get_assets H ev b c (tile_x t) (tile_y t) (tile_z t)") auto
  let ?b1 = "b\<lparr>mosaic_def := (mosaic_def b)
                  \<lparr>tiles := dict_set (tiles (mosaic_def b)) k
                              (if add_first then new @ ?old else ?old @ new)\<rparr>\<rparr>"
  have step: "update_loop H ev b c (item # items) add_first = update_loop H ev ?b1 c1 items add_first"
    using item t(1) g by simp
  have tms1: "tms ?b1 = tms b" and qz1: "quadkey_zoom ?b1 = quadkey_zoom b"
    by (simp_all add: quadkey_zoom_tiles_update)
  have "cache_sound H (tms ?b1) c1" using s1 by simp
  moreover have "keys_at_zoom (tms ?b1) (quadkey_zoom ?b1) items"
    unfolding keys_at_zoom_def tms1 qz1 using dk(2) rest by blast
  ultimately obtain b' c' where
    loop: "update_loop H ev ?b1 c1 items add_first = (Inr (), b', c')"
    and s': "cache_sound H (tms ?b1) c'"
    and ts: "\<forall>k'. map_of (tiles (mosaic_def b')) k' =
              (case map_of items k' of
                 None \<Rightarrow> map_of (tiles (mosaic_def ?b1)) k'
               | Some new_assets \<Rightarrow>
                   Some (merge_assets add_first new_assets
                           (dedupe_first (dict_get (tiles (mosaic_def ?b1)) k' []))))"
    using Cons.IH [of ?b1 c1] by blast
  have nk: "map_of items k = None" using dk(1) by (simp add: map_of_eq_None_iff)
  have "\<forall>k'. map_of (tiles (mosaic_def b')) k' =
              (case map_of (item # items) k' of
                 None \<Rightarrow> map_of (tiles (mosaic_def b)) k'
               | Some new_assets \<Rightarrow>
                   Some (merge_assets add_first new_assets
                           (dedupe_first (dict_get (tiles (mosaic_def b)) k' []))))"
  proof
    fix k'
    show "map_of (tiles (mosaic_def b')) k' =
              (case map_of (item # items) k' of
                 None \<Rightarrow> map_of (tiles (mosaic_def b)) k'
               | Some new_assets \<Rightarrow>
                   Some (merge_assets add_first new_assets
                           (dedupe_first (dict_get (tiles (mosaic_def b)) k' []))))"
    proof (cases "k' = k")
      case True
      with ts nk item show ?thesis
        by (simp add: map_of_dict_set merge_assets_def)
    next
      case False
      with ts [rule_format, of k'] item show ?thesis
        by (simp add: map_of_dict_set dict_get_dict_set split: option.splits)
    qed
  qed
  with step loop s' tms1 show ?case by simp
qed

section \<open>The concrete mosaic and the quadkey zoom\<close>

lemma collision_free_content: "collision_free content_fingerprint"
  by (simp add: collision_free_def content_fingerprint_def same_content_def)

lemma shrinking_keep_all: "shrinking keep_all"
  by (simp add: shrinking_def keep_all_def)

lemma quadkey_0123: "tms_quadkey_to_tile (quadtree_tms grid_tile) ''0123'' = Inr (Tile 5 3 4)"
  by (simp add: quadtree_quadkey_to_tile)

lemma find_0123: "find_quadkeys (quadtree_tms grid_tile) (Tile 5 3 4) 4 = Inr [''0123'']"
  by (simp add: find_quadkeys_def quadtree_quadkey eval_nat_numeral digit_char_def)

lemmas example_defs =
  example_update_def update_def example_from_features_def example_backend_def
  example_mosaic_def quadkey_zoom_def quadkey_0123 get_assets_def keep_all_def
  get_assets_wrapped_def find_0123 dict_keys_fromkeys dict_get_def bbox_union_def

lemma example_update_run:
  "example_update [(''0123'', old)] [(''0123'', new)] add_first =
     (Inr (),
      \<lparr> input = ''mosaic.json'',
        mosaic_def = \<lparr> version = 2, minzoom = 4, maxzoom = 8, stored_quadkey_zoom = None,
                       bounds = (-10, -20, 30, 10), center = (10, -5, 4),
                       tiles = [(''0123'', merge_assets add_first new (dedupe_first old))],
                       name = None \<rparr>,
        tms = quadtree_tms grid_tile, geographic_crs = WGS84_CRS,
        backend_bounds = (-10, -20, 30, 10) \<rparr>,
      [hashkey content_fingerprint (example_backend [(''0123'', old)]) 5 3 4 \<mapsto> dedupe_first old])"
  by (simp add: example_defs merge_assets_def)

text \<open>
  C10. A stored \<open>quadkey_zoom\<close> that is absent or 0 is replaced by \<open>minzoom\<close>, any other
  stored value is returned as it is; so the property is 0 only when \<open>minzoom\<close> is 0.
\<close>

theorem quadkey_zoom_falsy_is_minzoom:
  "(stored_quadkey_zoom (mosaic_def b) = None \<or> stored_quadkey_zoom (mosaic_def b) = Some 0
      \<longrightarrow> quadkey_zoom b = minzoom (mosaic_def b)) \<and>
   (\<forall>q. stored_quadkey_zoom (mosaic_def b) = Some q \<and> q \<noteq> 0 \<longrightarrow> quadkey_zoom b = q) \<and>
   (quadkey_zoom b = 0 \<longrightarrow> minzoom (mosaic_def b) = 0)"
  by (auto simp: quadkey_zoom_def split: option.splits if_splits)

theorem quadkey_zoom_falsy_is_minzoom_witness:
  "stored_quadkey_zoom (example_mosaic [] \<lparr>stored_quadkey_zoom := Some 0\<rparr>) = Some 0 \<and>
   minzoom (example_mosaic [] \<lparr>stored_quadkey_zoom := Some 0\<rparr>) = 4 \<and>
   quadkey_zoom (example_backend []
     \<lparr>mosaic_def := example_mosaic [] \<lparr>stored_quadkey_zoom := Some 0\<rparr>\<rparr>) = 4 \<and>
   stored_quadkey_zoom (example_mosaic [] \<lparr>stored_quadkey_zoom := Some 6\<rparr>) = Some 6 \<and>
   quadkey_zoom (example_backend []
     \<lparr>mosaic_def := example_mosaic [] \<lparr>stored_quadkey_zoom := Some 6\<rparr>\<rparr>) = 6 \<and>
   quadkey_zoom (example_backend [] \<lparr>mosaic_def := example_mosaic [] \<lparr>minzoom := 0\<rparr>\<rparr>) = 0 \<and>
   minzoom (example_mosaic [] \<lparr>minzoom := 0\<rparr>) = 0"
  using quadkey_zoom_falsy_is_minzoom
    [of "example_backend [] \<lparr>mosaic_def := example_mosaic [] \<lparr>stored_quadkey_zoom := Some 0\<rparr>\<rparr>"]
    quadkey_zoom_falsy_is_minzoom
    [of "example_backend [] \<lparr>mosaic_def := example_mosaic [] \<lparr>stored_quadkey_zoom := Some 6\<rparr>\<rparr>"]
    quadkey_zoom_falsy_is_minzoom
    [of "example_backend [] \<lparr>mosaic_def := example_mosaic [] \<lparr>minzoom := 0\<rparr>\<rparr>"]
  by (simp add: example_mosaic_def quadkey_zoom_def)

section \<open>Bounds, center and version after an update\<close>

lemma bbox_union_contains:
  "bbox_contains (bbox_union bbox_1 bbox_2) bbox_1 \<and> bbox_contains (bbox_union bbox_1 bbox_2) bbox_2"
  by (auto simp: bbox_contains_def bbox_union_def split: prod.splits)

lemma update_success:
  assumes "from_features features (minzoom (mosaic_def b)) (maxzoom (mosaic_def b))
             (quadkey_zoom b) = Inr new_mosaic"
    and "update H ev from_features increase_version write_doc b c features add_first
           = (Inr (), b', c')"
  shows "\<exists>ts c1 x0 y0 x1 y1.
           update_loop H ev b c (tiles new_mosaic) add_first
             = (Inr (), b\<lparr>mosaic_def := (mosaic_def b)\<lparr>tiles := ts\<rparr>\<rparr>, c1) \<and>
           bbox_union (bounds new_mosaic) (bounds (mosaic_def b)) = (x0, y0, x1, y1) \<and>
           b' = b\<lparr>mosaic_def := (mosaic_def b)
                     \<lparr>tiles := ts, version := increase_version (version (mosaic_def b)),
                      bounds := (x0, y0, x1, y1),
                      center := ((x0 + x1) / 2, (y0 + y1) / 2, minzoom (mosaic_def b))\<rparr>,
                  backend_bounds := (x0, y0, x1, y1)\<rparr> \<and>
           c' = c1 \<and> write_doc b' = None"
proof -
  obtain r b1 c1 where loop: "update_loop H ev b c (tiles new_mosaic) add_first = (r, b1, c1)"
    by (cases "update_loop H ev b c (tiles new_mosaic) add_first") auto
  from update_loop_tiles_only [OF loop] obtain ts where
    b1: "b1 = b\<lparr>mosaic_def := (mosaic_def b)\<lparr>tiles := ts\<rparr>\<rparr>" by blast
  obtain x0 y0 x1 y1 where
    u: "bbox_union (bounds new_mosaic) (bounds (mosaic_def b)) = (x0, y0, x1, y1)"
    by (cases "bbox_union (bounds new_mosaic) (bounds (mosaic_def b))") auto
  from assms loop have r: "r = Inr ()"
    by (cases r) (auto simp: update_def)
  from assms loop b1 u r show ?thesis
    by (auto simp: update_def Let_def split: option.splits)
qed

text \<open>
  C6. After a successful update the bounds of the document are the component-wise union of
  the bounds of the candidate document and the old bounds (minimum of the minima, maximum
  of the maxima), so they contain both; the center is the midpoint of the new bounds with
  \<open>minzoom\<close> as zoom; the version has been stepped once; the backend's copy of the bounds
  follows.
\<close>

theorem update_bounds_center_version:
  assumes "from_features features (minzoom (mosaic_def b)) (maxzoom (mosaic_def b))
             (quadkey_zoom b) = Inr new_mosaic"
    and "update H ev from_features increase_version write_doc b c features add_first
           = (Inr (), b', c')"
    and "bounds (mosaic_def b) = (x0, y0, x1, y1)"
    and "bounds new_mosaic = (u0, v0, u1, v1)"
  shows "bounds (mosaic_def b') = (min u0 x0, min v0 y0, max u1 x1, max v1 y1) \<and>
         bbox_contains (bounds (mosaic_def b')) (bounds (mosaic_def b)) \<and>
         bbox_contains (bounds (mosaic_def b')) (bounds new_mosaic) \<and>
         center (mosaic_def b') =
           ((min u0 x0 + max u1 x1) / 2, (min v0 y0 + max v1 y1) / 2, minzoom (mosaic_def b)) \<and>
         minzoom (mosaic_def b') = minzoom (mosaic_def b) \<and>
         version (mosaic_def b') = increase_version (version (mosaic_def b)) \<and>
         backend_bounds b' = bounds (mosaic_def b')"
proof -
  from update_success [OF assms(1,2)] obtain ts a0 a1 a2 a3 where
    u: "bbox_union (bounds new_mosaic) (bounds (mosaic_def b)) = (a0, a1, a2, a3)"
    and b': "b' = b\<lparr>mosaic_def := (mosaic_def b)
                     \<lparr>tiles := ts, version := increase_version (version (mosaic_def b)),
                      bounds := (a0, a1, a2, a3),
                      center := ((a0 + a2) / 2, (a1 + a3) / 2, minzoom (mosaic_def b))\<rparr>,
                  backend_bounds := (a0, a1, a2, a3)\<rparr>"
    by blast
  from u assms(3,4) have a: "a0 = min u0 x0" "a1 = min v0 y0" "a2 = max u1 x1" "a3 = max v1 y1"
    by (simp_all add: bbox_union_def)
  have bb: "bounds (mosaic_def b') = bbox_union (bounds new_mosaic) (bounds (mosaic_def b))"
    using b' u by simp
  from bbox_union_contains [of "bounds new_mosaic" "bounds (mosaic_def b)"] bb
  have "bbox_contains (bounds (mosaic_def b')) (bounds (mosaic_def b))"
       "bbox_contains (bounds (mosaic_def b')) (bounds new_mosaic)" by simp_all
  with b' a show ?thesis by simp
qed

theorem update_bounds_center_version_witness:
  "example_from_features ([(''0123'', [''b.tif''])], (5, -20, 30, 2)) 4 8 4
     = Inr \<lparr> version = 1, minzoom = 4, maxzoom = 8, stored_quadkey_zoom = Some 4,
             bounds = (5, -20, 30, 2), center = (0, 0, 4), tiles = [(''0123'', [''b.tif''])],
             name = None \<rparr> \<and>
   fst (example_update [(''0123'', [''a.tif''])] [(''0123'', [''b.tif''])] True) = Inr () \<and>
   bounds (example_mosaic [(''0123'', [''a.tif''])]) = (-10, -10, 10, 10) \<and>
   bounds (mosaic_def (fst (snd
     (example_update [(''0123'', [''a.tif''])] [(''0123'', [''b.tif''])] True)))) = (-10, -20, 30, 10) \<and>
   center (mosaic_def (fst (snd
     (example_update [(''0123'', [''a.tif''])] [(''0123'', [''b.tif''])] True)))) = (10, -5, 4) \<and>
   version (mosaic_def (fst (snd
     (example_update [(''0123'', [''a.tif''])] [(''0123'', [''b.tif''])] True)))) = 2"
proof -
  let ?b = "example_backend [(''0123'', [''a.tif''])]"
  let ?new = "\<lparr> version = 1, minzoom = 4, maxzoom = 8, stored_quadkey_zoom = Some 4,
             bounds = (5, -20, 30, 2), center = (0, 0, 4), tiles = [(''0123'', [''b.tif''])],
             name = None \<rparr> :: nat MosaicJSON"
  let ?u = "example_update [(''0123'', [''a.tif''])] [(''0123'', [''b.tif''])] True"
  have f: "example_from_features ([(''0123'', [''b.tif''])], (5, -20, 30, 2))
             (minzoom (mosaic_def ?b)) (maxzoom (mosaic_def ?b)) (quadkey_zoom ?b) = Inr ?new"
    by (simp add: example_from_features_def example_backend_def example_mosaic_def quadkey_zoom_def)
  have r: "update content_fingerprint keep_all example_from_features Suc (\<lambda>b. None) ?b Map.empty
             ([(''0123'', [''b.tif''])], (5, -20, 30, 2)) True = (Inr (), fst (snd ?u), snd (snd ?u))"
    using example_update_run [of "[''a.tif'']" "[''b.tif'']" True]
    by (simp add: example_update_def)
  have b0: "bounds (mosaic_def ?b) = (-10, -10, 10, 10)"
    by (simp add: example_backend_def example_mosaic_def)
  have b1: "bounds ?new = (5, -20, 30, 2)" by simp
  from update_bounds_center_version [OF f r b0 b1] f b0
  show ?thesis
    by (simp add: example_backend_def example_mosaic_def example_update_run
        example_from_features_def)
qed

section \<open>The assets of a tile and of a box\<close>

lemma get_assets_each_sound_for:
  assumes "shrinking ev"
  shows "cache_sound_for H b c \<Longrightarrow>
     fst (get_assets_each H ev b c ts) =
       all_or_first_error (map (\<lambda>(tx, ty, tz). get_assets_wrapped b tx ty tz) ts) \<and>
     cache_sound_for H b (snd (get_assets_each H ev b c ts))"
proof (induction ts arbitrary: c)
  case Nil
  then show ?case by simp
next
  case (Cons t ts)
  obtain tx ty tz where t: "t = (tx, ty, tz)" by (cases t)
  obtain r c1 where g: "get_assets H ev b c tx ty tz = (r, c1)"
    by (cases "get_assets H ev b c tx ty tz")
  from get_assets_sound_for [OF assms Cons.prems, of tx ty tz] g
  have r: "get_assets_wrapped b tx ty tz = r" and s1: "cache_sound_for H b c1" by simp_all
  show ?case
  proof (cases r)
    case (Inl e)
    with t g r s1 show ?thesis by simp
  next
    case (Inr v)
    obtain rs c2 where e: "get_assets_each H ev b c1 ts = (rs, c2)"
      by (cases "get_assets_each H ev b c1 ts")
    from Cons.IH [OF s1] e
    have "all_or_first_error (map (\<lambda>(tx, ty, tz). get_assets_wrapped b tx ty tz) ts) = rs"
      and "cache_sound_for H b c2" by simp_all
    with t g r Inr e show ?thesis by (cases rs) auto
  qed
qed

lemma set_tile_range:
  "set (tile_range tl_tile br_tile zoom) =
     {(tx, ty, tz). tile_x tl_tile \<le> tx \<and> tx \<le> tile_x br_tile \<and>
                    tile_y tl_tile \<le> ty \<and> ty \<le> tile_y br_tile \<and> tz = zoom}"
  by (auto simp: tile_range_def)

lemma distinct_concat_map:
  assumes "\<And>a. distinct (f a)" and "\<And>a a'. a \<noteq> a' \<Longrightarrow> set (f a) \<inter> set (f a') = {}"
  shows "distinct as \<Longrightarrow> distinct (concat (map f as))"
proof (induction as)
  case Nil
  then show ?case by simp
next
  case (Cons a as)
  have "set (f a) \<inter> set (f a') = {}" if "a' \<in> set as" for a'
    using that Cons.prems assms(2) [of a a'] by auto
  with Cons assms(1) show ?case by auto
qed

lemma distinct_tile_range: "distinct (tile_range tl_tile br_tile zoom)"
  unfolding tile_range_def
  by (rule distinct_concat_map) (auto simp: distinct_map inj_on_def)

text \<open>
  C3. On a cache that is sound for the backend, \<open>get_assets\<close> returns the asset lists of
  the resolved quadkeys, in the order \<open>find_quadkeys\<close> gives them and with nothing for
  an absent key, concatenated and with duplicates removed, first occurrences kept (an
  exception of \<open>find_quadkeys\<close> is passed on). \<open>assets_for_bbox\<close> returns in the same way
  the deduplicated concatenation of what \<open>get_assets\<close> returns for the tiles of the range,
  which holds each tile between the two corner tiles at the quadkey zoom once.
\<close>

theorem get_assets_first_occurrence:
  assumes "shrinking ev" and "cache_sound_for H b c"
    and "(if coord_crs \<noteq> geographic_crs b
          then warp_bounds coord_crs (geographic_crs b) (xmin, ymin, xmax, ymax)
          else (xmin, ymin, xmax, ymax)) = (xmin', ymin', xmax', ymax')"
    and "tl_tile = tms_tile (tms b) xmin' ymax' (quadkey_zoom b)"
    and "br_tile = tms_tile (tms b) xmax' ymin' (quadkey_zoom b)"
  shows "fst (get_assets H ev b c tx ty tz) =
           map_sum id
             (\<lambda>quadkeys. dedupe_first
                (concat (map (\<lambda>qk. case map_of (tiles (mosaic_def b)) qk of
                                      None \<Rightarrow> [] | Some assets \<Rightarrow> assets) quadkeys)))
             (find_quadkeys (tms b) (Tile tx ty tz) (quadkey_zoom b)) \<and>
         fst (assets_for_bbox H ev warp_bounds b c xmin ymin xmax ymax coord_crs) =
           map_sum id (\<lambda>lists. dedupe_first (concat lists))
             (all_or_first_error
                (map (\<lambda>(tx, ty, tz). fst (get_assets H ev b c tx ty tz))
                     (tile_range tl_tile br_tile (quadkey_zoom b)))) \<and>
         set (tile_range tl_tile br_tile (quadkey_zoom b)) =
           {(tx, ty, tz). tile_x tl_tile \<le> tx \<and> tx \<le> tile_x br_tile \<and>
                          tile_y tl_tile \<le> ty \<and> ty \<le> tile_y br_tile \<and>
                          tz = quadkey_zoom b} \<and>
         distinct (tile_range tl_tile br_tile (quadkey_zoom b))"
proof -
  have g: "\<And>tx ty tz. fst (get_assets H ev b c tx ty tz) = get_assets_wrapped b tx ty tz"
    using get_assets_sound_for [OF assms(1,2)] by simp
  have 1: "fst (get_assets H ev b c tx ty tz) =
           map_sum id
             (\<lambda>quadkeys. dedupe_first
                (concat (map (\<lambda>qk. case map_of (tiles (mosaic_def b)) qk of
                                      None \<Rightarrow> [] | Some assets \<Rightarrow> assets) quadkeys)))
             (find_quadkeys (tms b) (Tile tx ty tz) (quadkey_zoom b))"
    unfolding g get_assets_wrapped_def dict_keys_fromkeys dict_get_def
    by (cases "find_quadkeys (tms b) (Tile tx ty tz) (quadkey_zoom b)") simp_all
  have m: "(\<lambda>(tx, ty, tz). fst (get_assets H ev b c tx ty tz)) =
           (\<lambda>(tx, ty, tz). get_assets_wrapped b tx ty tz)"
    by (simp add: g)
  let ?ts = "tile_range tl_tile br_tile (quadkey_zoom b)"
  have e: "fst (get_assets_each H ev b c ?ts) =
             all_or_first_error (map (\<lambda>(tx, ty, tz). get_assets_wrapped b tx ty tz) ?ts)"
    using get_assets_each_sound_for [OF assms(1,2)] by simp
  have 2: "fst (assets_for_bbox H ev warp_bounds b c xmin ymin xmax ymax coord_crs) =
           map_sum id (\<lambda>lists. dedupe_first (concat lists))
             (all_or_first_error (map (\<lambda>(tx, ty, tz). fst (get_assets H ev b c tx ty tz)) ?ts))"
  proof -
    obtain rs c1 where r: "get_assets_each H ev b c ?ts = (rs, c1)"
      by (cases "get_assets_each H ev b c ?ts")
    with e have rs: "rs = all_or_first_error (map (\<lambda>(tx, ty, tz). get_assets_wrapped b tx ty tz) ?ts)"
      by simp
    have "fst (assets_for_bbox H ev warp_bounds b c xmin ymin xmax ymax coord_crs) =
            map_sum id (\<lambda>lists. dedupe_first (concat lists)) rs"
      unfolding assets_for_bbox_def assms(3) using r assms(4,5)
      by (cases rs) (simp_all add: Let_def dict_keys_fromkeys)
    with rs m show ?thesis by simp
  qed
  from 1 2 set_tile_range [of tl_tile br_tile "quadkey_zoom b"]
    distinct_tile_range [of tl_tile br_tile "quadkey_zoom b"]
  show ?thesis by blast
qed

lemma cache_sound_for_empty: "cache_sound_for H b Map.empty"
  by (simp add: cache_sound_for_def)

lemma grid_tile_tl: "grid_tile 1 80 4 = Tile 8 0 4"
  by (simp add: grid_tile_def)

lemma grid_tile_br: "grid_tile 30 70 4 = Tile 9 1 4"
  by (simp add: grid_tile_def)

lemma example_quadkey_zoom: "quadkey_zoom (example_backend ts) = 4"
  by (simp add: quadkey_zoom_def example_backend_def example_mosaic_def)

lemma example_backend_fields:
  "tms (example_backend ts) = quadtree_tms grid_tile"
  "geographic_crs (example_backend ts) = WGS84_CRS"
  "tiles (mosaic_def (example_backend ts)) = ts"
  "input (example_backend ts) = ''mosaic.json''"
  by (simp_all add: example_backend_def example_mosaic_def)

lemma example_find_coarse:
  "find_quadkeys (quadtree_tms grid_tile) (Tile 4 0 3) 4 = Inr [''1000'', ''1002'', ''1001'', ''1003'']"
  by (simp add: find_quadkeys_def quadtree_quadkey quadtree_children eval_nat_numeral digit_char_def)

lemma example_find_at: 
  "find_quadkeys (quadtree_tms grid_tile) (Tile 8 0 4) 4 = Inr [''1000'']"
  "find_quadkeys (quadtree_tms grid_tile) (Tile 8 1 4) 4 = Inr [''1002'']"
  "find_quadkeys (quadtree_tms grid_tile) (Tile 9 0 4) 4 = Inr [''1001'']"
  "find_quadkeys (quadtree_tms grid_tile) (Tile 9 1 4) 4 = Inr [''1003'']"
  by (simp_all add: find_quadkeys_def quadtree_quadkey eval_nat_numeral digit_char_def)

lemma example_get_assets_empty_cache:
  "fst (get_assets content_fingerprint keep_all b Map.empty tx ty tz) = get_assets_wrapped b tx ty tz"
  by (simp add: get_assets_def keep_all_def Let_def split: sum.splits)

theorem get_assets_first_occurrence_witness:
  "shrinking keep_all \<and>
   cache_sound_for content_fingerprint (example_backend example_tiles) Map.empty \<and>
   tms_tile (tms (example_backend example_tiles)) 1 80 (quadkey_zoom (example_backend example_tiles))
     = Tile 8 0 4 \<and>
   tms_tile (tms (example_backend example_tiles)) 30 70 (quadkey_zoom (example_backend example_tiles))
     = Tile 9 1 4 \<and>
   fst (get_assets content_fingerprint keep_all (example_backend example_tiles) Map.empty 4 0 3)
     = Inr [''a.tif'', ''b.tif'', ''c.tif'', ''d.tif''] \<and>
   fst (assets_for_bbox content_fingerprint keep_all (\<lambda>src dst box. box)
          (example_backend example_tiles) Map.empty 1 70 30 80 WGS84_CRS)
     = Inr [''a.tif'', ''b.tif'', ''c.tif'', ''d.tif''] \<and>
   tile_range (Tile 8 0 4) (Tile 9 1 4) 4 = [(8, 0, 4), (8, 1, 4), (9, 0, 4), (9, 1, 4)]"
proof -
  let ?b = "example_backend example_tiles"
  have s: "shrinking keep_all" by (rule shrinking_keep_all)
  have c: "cache_sound_for content_fingerprint ?b Map.empty" by (rule cache_sound_for_empty)
  have q: "quadkey_zoom ?b = 4" by (rule example_quadkey_zoom)
  note T = example_backend_fields
  have box: "(if WGS84_CRS \<noteq> geographic_crs ?b
          then (\<lambda>src dst box. box) WGS84_CRS (geographic_crs ?b) (1, 70, 30, 80)
          else (1, 70, 30, 80)) = (1::real, 70::real, 30::real, 80::real)"
    by (simp add: T)
  have tl: "Tile 8 0 4 = tms_tile (tms ?b) 1 80 (quadkey_zoom ?b)"
    by (simp add: T q quadtree_tile grid_tile_tl)
  have br: "Tile 9 1 4 = tms_tile (tms ?b) 30 70 (quadkey_zoom ?b)"
    by (simp add: T q quadtree_tile grid_tile_br)
  have r: "tile_range (Tile 8 0 4) (Tile 9 1 4) 4 = [(8, 0, 4), (8, 1, 4), (9, 0, 4), (9, 1, 4)]"
    by (simp add: tile_range_def upto.simps)
  have w: "get_assets_wrapped ?b 8 0 4 = Inr [''a.tif'', ''b.tif'']"
    "get_assets_wrapped ?b 8 1 4 = Inr [''b.tif'', ''c.tif'']"
    "get_assets_wrapped ?b 9 0 4 = Inr [''a.tif'', ''d.tif'']"
    "get_assets_wrapped ?b 9 1 4 = Inr [''d.tif'']"
    by (simp_all add: get_assets_wrapped_def T q example_find_at dict_keys_fromkeys dict_get_def)
       (simp_all add: example_tiles_def)
  from get_assets_first_occurrence
    [where warp_bounds = "\<lambda>src dst box. box" and coord_crs = WGS84_CRS and b = ?b
       and xmin = 1 and ymin = 70 and xmax = 30 and ymax = 80
       and tx = 4 and ty = 0 and tz = 3, OF s c box tl br]
  show ?thesis
    by (simp add: s c q T r example_find_coarse example_get_assets_empty_cache w
        quadtree_tile grid_tile_tl grid_tile_br) (simp add: example_tiles_def)
qed

section \<open>What update stores for a key\<close>

lemma update_tiles:
  assumes "collision_free H" and "shrinking ev" and "cache_sound H (tms b) c"
    and "from_features features (minzoom (mosaic_def b)) (maxzoom (mosaic_def b))
           (quadkey_zoom b) = Inr new_mosaic"
    and "keys_at_zoom (tms b) (quadkey_zoom b) (tiles new_mosaic)"
    and "update H ev from_features increase_version write_doc b c features add_first = (r, b', c')"
  shows "map_of (tiles (mosaic_def b')) k =
           (case map_of (tiles new_mosaic) k of
              None \<Rightarrow> map_of (tiles (mosaic_def b)) k
            | Some new_assets \<Rightarrow>
                Some (merge_assets add_first new_assets
                        (dedupe_first (dict_get (tiles (mosaic_def b)) k []))))"
proof -
  from update_loop_merges [OF assms(1,2,3,5), of add_first] obtain b1 c1 where
    loop: "update_loop H ev b c (tiles new_mosaic) add_first = (Inr (), b1, c1)"
    and ts: "\<forall>k. map_of (tiles (mosaic_def b1)) k =
              (case map_of (tiles new_mosaic) k of
                 None \<Rightarrow> map_of (tiles (mosaic_def b)) k
               | Some new_assets \<Rightarrow>
                   Some (merge_assets add_first new_assets
                           (dedupe_first (dict_get (tiles (mosaic_def b)) k []))))"
    by blast
  from assms(4,6) loop have "tiles (mosaic_def b') = tiles (mosaic_def b1)"
    by (auto simp: update_def Let_def split: prod.splits option.splits)
  with ts show ?thesis by simp
qed

lemma map_of_candidate:
  assumes "keys_at_zoom T qz items" and "(k, new_assets) \<in> set items"
  shows "map_of items k = Some new_assets"
  using assms by (simp add: keys_at_zoom_def)

text \<open>
  C4, as amended. For every key of the candidate index, \<open>update\<close> stores the new assets
  before the existing ones when \<open>add_first\<close> is true and after them otherwise, where the
  existing assets are the ones \<open>get_assets\<close> resolves for the key: the stored list (empty
  for an absent key) with duplicates removed, first occurrences kept. They are the stored
  list itself when it has no duplicates.
\<close>

theorem update_places_new_assets:
  assumes "collision_free H" and "shrinking ev" and "cache_sound H (tms b) c"
    and "from_features features (minzoom (mosaic_def b)) (maxzoom (mosaic_def b))
           (quadkey_zoom b) = Inr new_mosaic"
    and "keys_at_zoom (tms b) (quadkey_zoom b) (tiles new_mosaic)"
    and "update H ev from_features increase_version write_doc b c features add_first = (r, b', c')"
    and "(k, new_assets) \<in> set (tiles new_mosaic)"
    and "stored = dict_get (tiles (mosaic_def b)) k []"
  shows "map_of (tiles (mosaic_def b')) k =
           Some (if add_first then new_assets @ dedupe_first stored
                 else dedupe_first stored @ new_assets) \<and>
         (distinct stored \<longrightarrow>
            map_of (tiles (mosaic_def b')) k =
              Some (if add_first then new_assets @ stored else stored @ new_assets))"
proof -
  from map_of_candidate [OF assms(5,7)] update_tiles [OF assms(1-6), of k] assms(8)
  have "map_of (tiles (mosaic_def b')) k =
           Some (if add_first then new_assets @ dedupe_first stored
                 else dedupe_first stored @ new_assets)"
    by (simp add: merge_assets_def)
  then show ?thesis by (simp add: dedupe_first_distinct)
qed

lemma example_keys_at_zoom: "keys_at_zoom (quadtree_tms grid_tile) 4 [(''0123'', new_assets)]"
  by (simp add: keys_at_zoom_def quadkey_0123 find_0123)

lemma example_hyp_cache:
  "cache_sound content_fingerprint (tms (example_backend ts)) Map.empty"
  by (rule cache_sound_empty)

lemma example_hyp_features:
  "example_from_features ([(''0123'', new_assets)], (5, -20, 30, 2))
     (minzoom (mosaic_def (example_backend ts))) (maxzoom (mosaic_def (example_backend ts)))
     (quadkey_zoom (example_backend ts))
   = Inr \<lparr> version = 1, minzoom = 4, maxzoom = 8, stored_quadkey_zoom = Some 4,
           bounds = (5, -20, 30, 2), center = (0, 0, 4), tiles = [(''0123'', new_assets)],
           name = None \<rparr>"
  by (simp add: example_from_features_def example_quadkey_zoom)
     (simp add: example_backend_def example_mosaic_def)

lemma example_hyp_keys:
  "keys_at_zoom (tms (example_backend ts)) (quadkey_zoom (example_backend ts))
     (tiles \<lparr> version = 1::nat, minzoom = 4, maxzoom = 8, stored_quadkey_zoom = Some 4,
           bounds = (5, -20, 30, 2), center = (0, 0, 4), tiles = [(''0123'', new_assets)],
           name = None \<rparr>)"
  by (simp add: example_backend_fields example_quadkey_zoom example_keys_at_zoom)

lemma example_hyp_update:
  "update content_fingerprint keep_all example_from_features Suc (\<lambda>b. None)
     (example_backend ts) Map.empty (new_tiles, (5, -20, 30, 2)) add_first
   = (fst (example_update ts new_tiles add_first),
      fst (snd (example_update ts new_tiles add_first)),
      snd (snd (example_update ts new_tiles add_first)))"
  by (simp add: example_update_def)

theorem update_places_new_assets_witness:
  "collision_free (content_fingerprint :: nat MosaicJSON \<Rightarrow> nat MosaicJSON) \<and>
   shrinking (keep_all :: nat MosaicJSON cache \<Rightarrow> nat MosaicJSON cache) \<and>
   cache_sound content_fingerprint (tms (example_backend [(''0123'', [''a.tif''])])) Map.empty \<and>
   keys_at_zoom (tms (example_backend [(''0123'', [''a.tif''])]))
     (quadkey_zoom (example_backend [(''0123'', [''a.tif''])])) [(''0123'', [''b.tif''])] \<and>
   distinct [''a.tif''] \<and>
   map_of (tiles (mosaic_def (fst (snd
     (example_update [(''0123'', [''a.tif''])] [(''0123'', [''b.tif''])] True))))) ''0123''
     = Some [''b.tif'', ''a.tif''] \<and>
   map_of (tiles (mosaic_def (fst (snd
     (example_update [(''0123'', [''a.tif''])] [(''0123'', [''b.tif''])] False))))) ''0123''
     = Some [''a.tif'', ''b.tif'']"
proof -
  let ?ts = "[(''0123'', [''a.tif''])]"
  have m: "(''0123'', [''b.tif'']) \<in> set (tiles \<lparr> version = 1::nat, minzoom = 4, maxzoom = 8,
           stored_quadkey_zoom = Some 4, bounds = (5, -20, 30, 2), center = (0, 0, 4),
           tiles = [(''0123'', [''b.tif''])], name = None \<rparr>)" by simp
  have st: "[''a.tif''] = dict_get (tiles (mosaic_def (example_backend ?ts))) ''0123'' []"
    by (simp add: example_backend_fields dict_get_def)
  note h = collision_free_content shrinking_keep_all example_hyp_cache [of ?ts]
    example_hyp_features [of "[''b.tif'']" ?ts] example_hyp_keys [of ?ts "[''b.tif'']"]
  from update_places_new_assets
         [OF h example_hyp_update [of ?ts "[(''0123'', [''b.tif''])]" True] m st]
       update_places_new_assets
         [OF h example_hyp_update [of ?ts "[(''0123'', [''b.tif''])]" False] m st]
       h(1,2,3,5)
  show ?thesis by simp
qed

theorem update_places_new_assets_counterexample:
  "dict_get (tiles (mosaic_def (example_backend [(''0123'', [''a.tif'', ''a.tif''])]))) ''0123'' []
     = [''a.tif'', ''a.tif''] \<and>
   fst (example_update [(''0123'', [''a.tif'', ''a.tif''])] [(''0123'', [''b.tif''])] False) = Inr () \<and>
   dict_get (tiles (mosaic_def (fst (snd
     (example_update [(''0123'', [''a.tif'', ''a.tif''])] [(''0123'', [''b.tif''])] False)))))
     ''0123'' [] = [''a.tif'', ''b.tif''] \<and>
   dict_get (tiles (mosaic_def (fst (snd
     (example_update [(''0123'', [''a.tif'', ''a.tif''])] [(''0123'', [''b.tif''])] False)))))
     ''0123'' [] \<noteq> [''a.tif'', ''a.tif''] @ [''b.tif'']"
  by (simp add: example_update_run example_backend_fields dict_get_def merge_assets_def)

lemma count_list_append_sum: "count_list (xs @ ys) a = count_list xs a + count_list ys a"
  by (induction xs) auto

text \<open>
  C5, as amended. \<open>update\<close> removes no asset, but it does not keep the duplicates of the
  stored list: the list it stores for a key of the candidate index holds exactly the assets
  of the new list and of the stored list, each as often as it occurs in the new list, plus
  once if it occurs in the stored list at all (the existing assets are read through
  \<open>get_assets\<close>, which deduplicates them). Nothing is deduplicated among the new assets or
  between new and existing ones, and the keys outside the candidate index keep their lists.
\<close>

theorem update_keeps_every_asset:
  assumes "collision_free H" and "shrinking ev" and "cache_sound H (tms b) c"
    and "from_features features (minzoom (mosaic_def b)) (maxzoom (mosaic_def b))
           (quadkey_zoom b) = Inr new_mosaic"
    and "keys_at_zoom (tms b) (quadkey_zoom b) (tiles new_mosaic)"
    and "update H ev from_features increase_version write_doc b c features add_first = (r, b', c')"
    and "stored = dict_get (tiles (mosaic_def b)) k []"
    and "merged = dict_get (tiles (mosaic_def b')) k []"
  shows "((k, new_assets) \<in> set (tiles new_mosaic) \<longrightarrow>
            set merged = set new_assets \<union> set stored \<and>
            (\<forall>a. count_list merged a =
                   count_list new_assets a + (if a \<in> set stored then 1 else 0))) \<and>
         (k \<notin> fst ` set (tiles new_mosaic) \<longrightarrow>
            map_of (tiles (mosaic_def b')) k = map_of (tiles (mosaic_def b)) k)"
proof -
  have 1: "set merged = set new_assets \<union> set stored \<and>
        (\<forall>a. count_list merged a = count_list new_assets a + (if a \<in> set stored then 1 else 0))"
    if "(k, new_assets) \<in> set (tiles new_mosaic)"
  proof -
    from map_of_candidate [OF assms(5) that] update_tiles [OF assms(1-6), of k] assms(7,8)
    have m: "merged = merge_assets add_first new_assets (dedupe_first stored)"
      by (simp add: dict_get_def)
    show ?thesis
      unfolding m merge_assets_def
      by (auto simp: set_dedupe_first count_list_append_sum count_dedupe_first)
  qed
  have 2: "map_of (tiles (mosaic_def b')) k = map_of (tiles (mosaic_def b)) k"
    if "k \<notin> fst ` set (tiles new_mosaic)"
  proof -
    from that have "map_of (tiles new_mosaic) k = None" by (simp add: map_of_eq_None_iff)
    with update_tiles [OF assms(1-6), of k] show ?thesis by simp
  qed
  from 1 2 show ?thesis by blast
qed

theorem update_keeps_every_asset_witness:
  "collision_free (content_fingerprint :: nat MosaicJSON \<Rightarrow> nat MosaicJSON) \<and>
   shrinking (keep_all :: nat MosaicJSON cache \<Rightarrow> nat MosaicJSON cache) \<and>
   cache_sound content_fingerprint
     (tms (example_backend [(''0123'', [''a.tif'', ''c.tif'']), (''0120'', [''d.tif''])])) Map.empty \<and>
   keys_at_zoom (tms (example_backend [(''0123'', [''a.tif'', ''c.tif'']), (''0120'', [''d.tif''])]))
     (quadkey_zoom (example_backend [(''0123'', [''a.tif'', ''c.tif'']), (''0120'', [''d.tif''])]))
     [(''0123'', [''b.tif'', ''a.tif'', ''b.tif''])] \<and>
   set (dict_get (tiles (mosaic_def (fst (snd
     (example_update [(''0123'', [''a.tif'', ''c.tif'']), (''0120'', [''d.tif''])]
        [(''0123'', [''b.tif'', ''a.tif'', ''b.tif''])] True))))) ''0123'' [])
     = {''a.tif'', ''b.tif'', ''c.tif''} \<and>
   count_list (dict_get (tiles (mosaic_def (fst (snd
     (example_update [(''0123'', [''a.tif'', ''c.tif'']), (''0120'', [''d.tif''])]
        [(''0123'', [''b.tif'', ''a.tif'', ''b.tif''])] True))))) ''0123'' []) ''a.tif'' = 2 \<and>
   count_list (dict_get (tiles (mosaic_def (fst (snd
     (example_update [(''0123'', [''a.tif'', ''c.tif'']), (''0120'', [''d.tif''])]
        [(''0123'', [''b.tif'', ''a.tif'', ''b.tif''])] True))))) ''0123'' []) ''b.tif'' = 2 \<and>
   map_of (tiles (mosaic_def (fst (snd
     (example_update [(''0123'', [''a.tif'', ''c.tif'']), (''0120'', [''d.tif''])]
        [(''0123'', [''b.tif'', ''a.tif'', ''b.tif''])] True))))) ''0120'' = Some [''d.tif'']"
proof -
  let ?ts = "[(''0123'', [''a.tif'', ''c.tif'']), (''0120'', [''d.tif''])]"
  let ?new = "[''b.tif'', ''a.tif'', ''b.tif'']"
  let ?b' = "fst (snd (example_update ?ts [(''0123'', ?new)] True))"
  have m: "(''0123'', ?new) \<in> set (tiles \<lparr> version = 1::nat, minzoom = 4, maxzoom = 8,
           stored_quadkey_zoom = Some 4, bounds = (5, -20, 30, 2), center = (0, 0, 4),
           tiles = [(''0123'', ?new)], name = None \<rparr>)" by simp
  have n: "''0120'' \<notin> fst ` set (tiles \<lparr> version = 1::nat, minzoom = 4, maxzoom = 8,
           stored_quadkey_zoom = Some 4, bounds = (5, -20, 30, 2), center = (0, 0, 4),
           tiles = [(''0123'', ?new)], name = None \<rparr>)" by simp
  have st: "[''a.tif'', ''c.tif''] = dict_get (tiles (mosaic_def (example_backend ?ts))) ''0123'' []"
    by (simp add: example_backend_fields dict_get_def)
  note h = collision_free_content shrinking_keep_all example_hyp_cache [of ?ts]
    example_hyp_features [of ?new ?ts] example_hyp_keys [of ?ts ?new]
    example_hyp_update [of ?ts "[(''0123'', ?new)]" True]
  from update_keeps_every_asset [OF h st refl, of ?new] m
  have 1: "set (dict_get (tiles (mosaic_def ?b')) ''0123'' []) = set ?new \<union> set [''a.tif'', ''c.tif'']"
    and 2: "\<And>a. count_list (dict_get (tiles (mosaic_def ?b')) ''0123'' []) a =
              count_list ?new a + (if a \<in> set [''a.tif'', ''c.tif''] then 1 else 0)"
    by blast+
  from update_keeps_every_asset [OF h refl refl, of "''0120''" ?new] n
  have 3: "map_of (tiles (mosaic_def ?b')) ''0120'' = map_of (tiles (mosaic_def (example_backend ?ts))) ''0120''"
    by blast
  have 4: "set ?new \<union> set [''a.tif'', ''c.tif''] = {''a.tif'', ''b.tif'', ''c.tif''}" by auto
  from 1 2 [of "''a.tif''"] 2 [of "''b.tif''"] 3 4 h(1,2,3,5)
  show ?thesis by (simp add: example_backend_fields)
qed

theorem update_keeps_every_asset_counterexample:
  "fst (example_update [(''0123'', [''a.tif'', ''a.tif''])] [(''0123'', [''b.tif''])] True) = Inr () \<and>
   count_list (dict_get (tiles (mosaic_def (example_backend [(''0123'', [''a.tif'', ''a.tif''])])))
     ''0123'' []) ''a.tif'' = 2 \<and>
   dict_get (tiles (mosaic_def (fst (snd
     (example_update [(''0123'', [''a.tif'', ''a.tif''])] [(''0123'', [''b.tif''])] True)))))
     ''0123'' [] = [''b.tif'', ''a.tif''] \<and>
   count_list (dict_get (tiles (mosaic_def (fst (snd
     (example_update [(''0123'', [''a.tif'', ''a.tif''])] [(''0123'', [''b.tif''])] True)))))
     ''0123'' []) ''a.tif'' = 1"
  by (simp add: example_update_run example_backend_fields dict_get_def merge_assets_def)

section \<open>The cache across an update\<close>

lemma update_loop_cache_sound:
  assumes "collision_free H" and "shrinking ev"
  shows "cache_sound H (tms b) c \<Longrightarrow> update_loop H ev b c items add_first = (r, b', c') \<Longrightarrow>
         cache_sound H (tms b) c'"
proof (induction items arbitrary: b c)
  case Nil
  then show ?case by simp
next
  case (Cons item items)
  obtain k new where item: "item = (k, new)" by (cases item)
  show ?case
  proof (cases "tms_quadkey_to_tile (tms b) k")
    case (Inl e)
    with Cons.prems item show ?thesis by simp
  next
    case (Inr t)
    obtain ra c1 where g: "get_assets H ev b c (tile_x t) (tile_y t) (tile_z t) = (ra, c1)"
      by (cases "get_assets H ev b c (tile_x t) (tile_y t) (tile_z t)")
    from get_assets_sound [OF assms Cons.prems(1) refl, of "tile_x t" "tile_y t" "tile_z t"] g
    have s1: "cache_sound H (tms b) c1" by simp
    show ?thesis
    proof (cases ra)
      case (Inl e)
      with Cons.prems item \<open>tms_quadkey_to_tile (tms b) k = Inr t\<close> g s1 show ?thesis by simp
    next
      case (Inr assets)
      let ?b1 = "b\<lparr>mosaic_def := (mosaic_def b)
                      \<lparr>tiles := dict_set (tiles (mosaic_def b)) k
                                  (if add_first then new @ assets else assets @ new)\<rparr>\<rparr>"
      from Cons.prems(2) item \<open>tms_quadkey_to_tile (tms b) k = Inr t\<close> g Inr
      have "update_loop H ev ?b1 c1 items add_first = (r, b', c')" by simp
      moreover from s1 have "cache_sound H (tms ?b1) c1" by simp
      ultimately have "cache_sound H (tms ?b1) c'" by (rule Cons.IH [rotated])
      then show ?thesis by simp
    qed
  qed
qed

lemma update_cache_sound:
  assumes "collision_free H" and "shrinking ev" and "cache_sound H (tms b) c"
    and "update H ev from_features increase_version write_doc b c features add_first = (r, b', c')"
  shows "cache_sound H (tms b') c' \<and> tms b' = tms b \<and> input b' = input b"
proof (cases "from_features features (minzoom (mosaic_def b)) (maxzoom (mosaic_def b))
                (quadkey_zoom b)")
  case (Inl e)
  with assms(3,4) show ?thesis by (simp add: update_def)
next
  case (Inr new_mosaic)
  obtain r1 b1 c1 where loop: "update_loop H ev b c (tiles new_mosaic) add_first = (r1, b1, c1)"
    by (cases "update_loop H ev b c (tiles new_mosaic) add_first") auto
  from update_loop_cache_sound [OF assms(1,2,3) loop] have s1: "cache_sound H (tms b) c1" .
  from update_loop_tiles_only [OF loop] obtain ts where
    b1: "b1 = b\<lparr>mosaic_def := (mosaic_def b)\<lparr>tiles := ts\<rparr>\<rparr>" by blast
  from assms(4) Inr loop have "c' = c1 \<and> tms b' = tms b1 \<and> input b' = input b1"
    by (cases r1) (auto simp: update_def Let_def split: prod.splits option.splits)
  with s1 b1 show ?thesis by simp
qed

text \<open>
  C2. With a fingerprint without collisions (what the specification asks of \<open>get_hash\<close>)
  and a cache that is sound when the update starts, as the empty cache is and as every
  call leaves it: after an update, \<open>get_assets\<close> returns for every tile what its body
  computes on the updated document, never a list of an older document, and leaves the
  cache sound. When the update changed the content of the document, tiles, bounds or
  version, its fingerprint differs from the old one, and so does every cache key of the
  updated backend from every key of the old one. Nothing invalidates the cache; expiry
  and eviction are free to remove any entry.
\<close>

theorem get_assets_fresh_after_update:
  assumes "collision_free H" and "shrinking ev" and "cache_sound H (tms b) c"
    and "update H ev from_features increase_version write_doc b c features add_first = (r, b', c')"
  shows "fst (get_assets H ev b' c' tx ty tz) = get_assets_wrapped b' tx ty tz \<and>
         cache_sound H (tms b') (snd (get_assets H ev b' c' tx ty tz)) \<and>
         (\<not> same_content (mosaic_def b') (mosaic_def b) \<longrightarrow>
            mosaicid H b' \<noteq> mosaicid H b \<and>
            (\<forall>x y z x' y' z'. hashkey H b' x y z \<noteq> hashkey H b x' y' z'))"
proof -
  from update_cache_sound [OF assms] have s: "cache_sound H (tms b') c'" by blast
  from get_assets_sound [OF assms(1,2) s refl, of tx ty tz]
  have 1: "fst (get_assets H ev b' c' tx ty tz) = get_assets_wrapped b' tx ty tz"
    and 2: "cache_sound H (tms b') (snd (get_assets H ev b' c' tx ty tz))" by simp_all
  have 3: "mosaicid H b' \<noteq> mosaicid H b \<and>
           (\<forall>x y z x' y' z'. hashkey H b' x y z \<noteq> hashkey H b x' y' z')"
    if "\<not> same_content (mosaic_def b') (mosaic_def b)"
    using that assms(1) by (auto simp: collision_free_def mosaicid_def hashkey_def)
  from 1 2 3 show ?thesis by blast
qed

lemma example_get_assets_wrapped:
  "get_assets_wrapped (example_backend [(''0123'', assets)]) 5 3 4 = Inr (dedupe_first assets)"
  by (simp add: get_assets_wrapped_def example_backend_fields example_quadkey_zoom find_0123
      dict_keys_fromkeys dict_get_def)

lemma example_warm_cache_entry:
  "example_warm_cache =
     [hashkey content_fingerprint (example_backend [(''0123'', [''a.tif''])]) 5 3 4 \<mapsto> [''a.tif'']]"
  by (simp add: example_warm_cache_def get_assets_def keep_all_def example_get_assets_wrapped)

lemma example_update_warm_run:
  "example_update_warm =
     (Inr (),
      \<lparr> input = ''mosaic.json'',
        mosaic_def = \<lparr> version = 2, minzoom = 4, maxzoom = 8, stored_quadkey_zoom = None,
                       bounds = (-10, -20, 30, 10), center = (10, -5, 4),
                       tiles = [(''0123'', [''b.tif'', ''a.tif''])],
                       name = None \<rparr>,
        tms = quadtree_tms grid_tile, geographic_crs = WGS84_CRS,
        backend_bounds = (-10, -20, 30, 10) \<rparr>,
      example_warm_cache)"
  unfolding example_update_warm_def example_warm_cache_entry
  by (simp add: update_def example_from_features_def example_quadkey_zoom example_backend_fields
      quadkey_0123 get_assets_def keep_all_def bbox_union_def)
     (simp add: example_backend_def example_mosaic_def)

theorem get_assets_fresh_after_update_witness:
  "collision_free (content_fingerprint :: nat MosaicJSON \<Rightarrow> nat MosaicJSON) \<and>
   shrinking (keep_all :: nat MosaicJSON cache \<Rightarrow> nat MosaicJSON cache) \<and>
   cache_sound content_fingerprint (tms (example_backend [(''0123'', [''a.tif''])]))
     example_warm_cache \<and>
   example_warm_cache
     (hashkey content_fingerprint (example_backend [(''0123'', [''a.tif''])]) 5 3 4)
     = Some [''a.tif''] \<and>
   fst example_update_warm = Inr () \<and>
   fst (get_assets content_fingerprint keep_all (fst (snd example_update_warm))
          (snd (snd example_update_warm)) 5 3 4) = Inr [''b.tif'', ''a.tif''] \<and>
   \<not> same_content (mosaic_def (fst (snd example_update_warm)))
        (mosaic_def (example_backend [(''0123'', [''a.tif''])])) \<and>
   mosaicid content_fingerprint (fst (snd example_update_warm))
     \<noteq> mosaicid content_fingerprint (example_backend [(''0123'', [''a.tif''])])"
proof -
  let ?b = "example_backend [(''0123'', [''a.tif''])]"
  have s0: "cache_sound content_fingerprint (tms ?b) example_warm_cache"
    unfolding example_warm_cache_def
    using get_assets_sound [OF collision_free_content shrinking_keep_all cache_sound_empty refl,
            of ?b 5 3 4]
    by simp
  have u: "update content_fingerprint keep_all example_from_features Suc (\<lambda>b. None) ?b
             example_warm_cache ([(''0123'', [''b.tif''])], (5, -20, 30, 2)) True
           = (fst example_update_warm, fst (snd example_update_warm), snd (snd example_update_warm))"
    by (simp add: example_update_warm_def)
  have w: "get_assets_wrapped (fst (snd example_update_warm)) 5 3 4 = Inr [''b.tif'', ''a.tif'']"
    by (simp add: example_update_warm_run get_assets_wrapped_def quadkey_zoom_def find_0123
        dict_keys_fromkeys dict_get_def)
  have d: "\<not> same_content (mosaic_def (fst (snd example_update_warm))) (mosaic_def ?b)"
    by (simp add: example_update_warm_run same_content_def example_backend_def example_mosaic_def)
  from get_assets_fresh_after_update [OF collision_free_content shrinking_keep_all s0 u, of 5 3 4]
       w d s0 collision_free_content shrinking_keep_all
  show ?thesis
    by (simp add: example_update_warm_run example_warm_cache_entry)
qed

section \<open>Tile and point queries\<close>

lemma parent_walk_error: "parent_walk T n t = Inl e \<Longrightarrow> e = IndexError"
  by (induction n arbitrary: t) (auto split: list.splits)

lemma find_quadkeys_error: "find_quadkeys T t qz = Inl e \<Longrightarrow> e = IndexError"
  by (auto simp: find_quadkeys_def split: if_splits sum.splits dest: parent_walk_error)

lemma get_assets_error: "fst (get_assets H ev b c tx ty tz) = Inl e \<Longrightarrow> e = IndexError"
  by (auto simp: get_assets_def get_assets_wrapped_def Let_def
      split: option.splits sum.splits dest: find_quadkeys_error)

text \<open>
  C7. \<open>tile\<close> raises \<open>NoAssetFoundError\<close> exactly when \<open>get_assets\<close> returns the empty
  list. It then returns without consulting \<open>mosaic_reader\<close> or the per-asset reader, and
  with the cache one call of \<open>get_assets\<close> leaves: nothing is read and nothing is tried
  again. \<open>point\<close> does the same when the assets resolved for its tile are empty.
\<close>

theorem no_asset_found_before_reading:
  "(fst (tile H ev mosaic_reader read_tile b c tx ty tz reverse) = Inl NoAssetFoundError
      \<longleftrightarrow> fst (get_assets H ev b c tx ty tz) = Inr []) \<and>
   (fst (get_assets H ev b c tx ty tz) = Inr [] \<longrightarrow>
      tile H ev mosaic_reader read_tile b c tx ty tz reverse
        = (Inl NoAssetFoundError, snd (get_assets H ev b c tx ty tz))) \<and>
   (fst (assets_for_point H ev warp b c lon lat WGS84_CRS) = Inr [] \<longrightarrow>
      point H ev warp read_point b c lon lat reverse coord_crs allowed_exceptions
        = (Inl NoAssetFoundError, snd (assets_for_point H ev warp b c lon lat WGS84_CRS)))"
proof -
  obtain r c1 where g: "get_assets H ev b c tx ty tz = (r, c1)"
    by (cases "get_assets H ev b c tx ty tz")
  have 1: "fst (tile H ev mosaic_reader read_tile b c tx ty tz reverse) = Inl NoAssetFoundError
      \<longleftrightarrow> fst (get_assets H ev b c tx ty tz) = Inr []"
  proof (cases r)
    case (Inl e)
    with get_assets_error [of H ev b c tx ty tz e] g have "e = IndexError" by simp
    with Inl g show ?thesis by (simp add: tile_def)
  next
    case (Inr assets)
    with g show ?thesis
      by (cases "mosaic_reader (if reverse then rev assets else assets)
                   (\<lambda>asset. read_tile asset tx ty tz)")
         (simp_all add: tile_def)
  qed
  have 2: "tile H ev mosaic_reader read_tile b c tx ty tz reverse
        = (Inl NoAssetFoundError, snd (get_assets H ev b c tx ty tz))"
    if "fst (get_assets H ev b c tx ty tz) = Inr []"
    using that g by (simp add: tile_def)
  obtain r' c2 where p: "assets_for_point H ev warp b c lon lat WGS84_CRS = (r', c2)"
    by (cases "assets_for_point H ev warp b c lon lat WGS84_CRS")
  have 3: "point H ev warp read_point b c lon lat reverse coord_crs allowed_exceptions
        = (Inl NoAssetFoundError, snd (assets_for_point H ev warp b c lon lat WGS84_CRS))"
    if "fst (assets_for_point H ev warp b c lon lat WGS84_CRS) = Inr []"
    using that p by (simp add: point_def)
  from 1 2 3 show ?thesis by blast
qed

lemma grid_tile_empty_cell: "grid_tile (-170) 85 4 = Tile 0 0 4"
  by (simp add: grid_tile_def)

lemma grid_tile_0123: "grid_tile (-60) 50 4 = Tile 5 3 4"
  by (simp add: grid_tile_def)

lemma find_0000: "find_quadkeys (quadtree_tms grid_tile) (Tile 0 0 4) 4 = Inr [''0000'']"
  by (simp add: find_quadkeys_def quadtree_quadkey eval_nat_numeral digit_char_def)

lemma example_no_assets:
  "get_assets content_fingerprint keep_all (example_backend [(''0123'', assets)]) Map.empty 0 0 4
     = (Inr [], [hashkey content_fingerprint (example_backend [(''0123'', assets)]) 0 0 4 \<mapsto> []])"
  by (simp add: get_assets_def keep_all_def get_assets_wrapped_def example_backend_fields
      example_quadkey_zoom find_0000 dict_keys_fromkeys dict_get_def)

lemma example_assets_for_point_empty:
  "assets_for_point content_fingerprint keep_all example_warp (example_backend [(''0123'', assets)])
     Map.empty (-170) 85 WGS84_CRS
   = (Inr [], [hashkey content_fingerprint (example_backend [(''0123'', assets)]) 0 0 4 \<mapsto> []])"
  by (simp add: assets_for_point_def transform_point_def example_backend_fields
      example_quadkey_zoom quadtree_tile grid_tile_empty_cell example_no_assets)

theorem no_asset_found_before_reading_witness:
  "fst (get_assets content_fingerprint keep_all (example_backend [(''0123'', [''a.tif''])])
          Map.empty 0 0 4) = Inr [] \<and>
   tile content_fingerprint keep_all (\<lambda>assets reader. Inr (0::nat, assets)) (\<lambda>asset x y z. Inr 0)
     (example_backend [(''0123'', [''a.tif''])]) Map.empty 0 0 4 False
     = (Inl NoAssetFoundError,
        [hashkey content_fingerprint (example_backend [(''0123'', [''a.tif''])]) 0 0 4 \<mapsto> []]) \<and>
   fst (get_assets content_fingerprint keep_all (example_backend [(''0123'', [''a.tif''])])
          Map.empty 5 3 4) = Inr [''a.tif''] \<and>
   fst (tile content_fingerprint keep_all (\<lambda>assets reader. Inr (0::nat, assets)) (\<lambda>asset x y z. Inr 0)
     (example_backend [(''0123'', [''a.tif''])]) Map.empty 5 3 4 False) = Inr (0, [''a.tif'']) \<and>
   fst (assets_for_point content_fingerprint keep_all example_warp
          (example_backend [(''0123'', [''a.tif''])]) Map.empty (-170) 85 WGS84_CRS) = Inr [] \<and>
   point content_fingerprint keep_all example_warp example_read_point
     (example_backend [(''0123'', [''a.tif''])]) Map.empty (-170) 85 False WGS84_CRS None
     = (Inl NoAssetFoundError,
        [hashkey content_fingerprint (example_backend [(''0123'', [''a.tif''])]) 0 0 4 \<mapsto> []])"
proof -
  let ?b = "example_backend [(''0123'', [''a.tif''])]"
  have a: "get_assets content_fingerprint keep_all ?b Map.empty 5 3 4
             = (Inr [''a.tif''], [hashkey content_fingerprint ?b 5 3 4 \<mapsto> [''a.tif'']])"
    by (simp add: get_assets_def keep_all_def get_assets_wrapped_def example_backend_fields
      example_quadkey_zoom find_0123 dict_keys_fromkeys dict_get_def)
  have t: "fst (tile content_fingerprint keep_all (\<lambda>assets reader. Inr (0::nat, assets))
                  (\<lambda>asset x y z. Inr 0) ?b Map.empty 5 3 4 False) = Inr (0, [''a.tif''])"
    by (simp add: tile_def a)
  from no_asset_found_before_reading
         [where H = content_fingerprint and ev = keep_all
            and mosaic_reader = "\<lambda>assets reader. Inr (0::nat, assets)"
            and read_tile = "\<lambda>asset x y z. Inr 0" and b = ?b and c = Map.empty
            and tx = 0 and ty = 0 and tz = 4 and reverse = False and warp = example_warp
            and lon = "-170" and lat = 85 and read_point = example_read_point
            and coord_crs = WGS84_CRS and allowed_exceptions = None]
       a t
  show ?thesis
    by (simp add: example_no_assets example_assets_for_point_empty)
qed

lemma dict_set_fresh: "k \<notin> fst ` set d \<Longrightarrow> dict_set d k v = d @ [(k, v)]"
  by (induction d) auto

lemma multi_values_all_allowed:
  assumes "\<forall>a \<in> set assets. \<forall>e. reader a = Inl e \<longrightarrow> list_ex (isinstance e) allowed"
  shows "distinct assets \<Longrightarrow> set assets \<inter> fst ` set d = {} \<Longrightarrow>
         multi_values assets reader allowed d =
           Inr (d @ List.map_filter
                      (\<lambda>a. case reader a of Inl e \<Rightarrow> None | Inr v \<Rightarrow> Some (a, v)) assets)"
  using assms
proof (induction assets arbitrary: d)
  case Nil
  then show ?case by simp
next
  case (Cons a assets)
  show ?case
  proof (cases "reader a")
    case (Inl e)
    with Cons.prems have "list_ex (isinstance e) allowed" by simp
    moreover from Cons.prems have "distinct assets" "set assets \<inter> fst ` set d = {}"
      "\<forall>a \<in> set assets. \<forall>e. reader a = Inl e \<longrightarrow> list_ex (isinstance e) allowed" by auto
    ultimately show ?thesis using Inl Cons.IH [of d] by simp
  next
    case (Inr v)
    from Cons.prems have f: "a \<notin> fst ` set d" by auto
    from Cons.prems have "distinct assets" "set assets \<inter> fst ` set (d @ [(a, v)]) = {}"
      "\<forall>a \<in> set assets. \<forall>e. reader a = Inl e \<longrightarrow> list_ex (isinstance e) allowed" by auto
    from Cons.IH [OF this] Inr f show ?thesis
      by (simp add: dict_set_fresh)
  qed
qed

lemma multi_values_not_caught:
  assumes "\<not> list_ex (isinstance PointOutsideBounds) allowed"
  shows "\<forall>a \<in> set assets. reader a = Inl PointOutsideBounds \<or> (\<exists>v. reader a = Inr v) \<Longrightarrow>
         \<exists>a \<in> set assets. reader a = Inl PointOutsideBounds \<Longrightarrow>
         multi_values assets reader allowed d = Inl PointOutsideBounds"
proof (induction assets arbitrary: d)
  case Nil
  then show ?case by simp
next
  case (Cons a assets)
  show ?case
  proof (cases "reader a")
    case (Inl e)
    with Cons.prems(1) have "e = PointOutsideBounds" by auto
    with Inl assms show ?thesis by simp
  next
    case (Inr v)
    with Cons.prems have "\<forall>a \<in> set assets. reader a = Inl PointOutsideBounds \<or> (\<exists>v. reader a = Inr v)"
      and "\<exists>a \<in> set assets. reader a = Inl PointOutsideBounds" by auto
    from Cons.IH [OF this] Inr show ?thesis by simp
  qed
qed

lemma get_assets_distinct:
  assumes "shrinking ev" and "cache_sound_for H b c"
    and "fst (get_assets H ev b c tx ty tz) = Inr assets"
  shows "distinct assets"
proof -
  from get_assets_sound_for [OF assms(1,2), of tx ty tz] assms(3)
  have "get_assets_wrapped b tx ty tz = Inr assets" by simp
  then show ?thesis
    by (auto simp: get_assets_wrapped_def dict_keys_fromkeys distinct_dedupe_first
        split: sum.splits)
qed

text \<open>
  C9, as amended. When the caller passes no \<open>allowed_exceptions\<close> of its own, or one that
  catches \<open>PointOutsideBounds\<close> (it holds the class itself or one of its superclasses), and
  no asset fails in another way, a point query succeeds: it returns, in asset order
  (reversed on request), the pair of every asset whose read succeeded and its value, and
  leaves out the assets that reported the point outside their bounds.
\<close>

theorem point_drops_assets_outside_bounds:
  assumes "shrinking ev" and "cache_sound_for H b c"
    and "assets_for_point H ev warp b c lon lat WGS84_CRS = (Inr assets, c1)"
    and "assets \<noteq> []"
    and "allowed_exceptions = None \<or>
         (\<exists>allowed. allowed_exceptions = Some allowed \<and>
                     list_ex (isinstance PointOutsideBounds) allowed)"
    and "transform_point warp lon lat coord_crs (geographic_crs b) = (lon', lat')"
    and "\<forall>a \<in> set assets. read_point a lon' lat' (geographic_crs b) = Inl PointOutsideBounds \<or>
                           (\<exists>v. read_point a lon' lat' (geographic_crs b) = Inr v)"
  shows "point H ev warp read_point b c lon lat reverse coord_crs allowed_exceptions =
           (Inr (List.map_filter
                   (\<lambda>a. case read_point a lon' lat' (geographic_crs b) of
                           Inl e \<Rightarrow> None | Inr v \<Rightarrow> Some (a, v))
                   (if reverse then rev assets else assets)), c1)"
proof -
  let ?assets = "if reverse then rev assets else assets"
  let ?reader = "\<lambda>a. read_point a lon' lat' (geographic_crs b)"
  let ?allowed = "case allowed_exceptions of
                    None \<Rightarrow> [PointOutsideBoundsClass] | Some allowed \<Rightarrow> allowed"
  from assms(3) have "fst (get_assets H ev b c
      (tile_x (tms_tile (tms b) (fst (transform_point warp lon lat WGS84_CRS (geographic_crs b)))
                 (snd (transform_point warp lon lat WGS84_CRS (geographic_crs b))) (quadkey_zoom b)))
      (tile_y (tms_tile (tms b) (fst (transform_point warp lon lat WGS84_CRS (geographic_crs b)))
                 (snd (transform_point warp lon lat WGS84_CRS (geographic_crs b))) (quadkey_zoom b)))
      (tile_z (tms_tile (tms b) (fst (transform_point warp lon lat WGS84_CRS (geographic_crs b)))
                 (snd (transform_point warp lon lat WGS84_CRS (geographic_crs b))) (quadkey_zoom b))))
      = Inr assets"
    by (simp add: assets_for_point_def Let_def split: prod.splits)
  from get_assets_distinct [OF assms(1,2) this] have d: "distinct ?assets" by simp
  from assms(5) have p: "list_ex (isinstance PointOutsideBounds) ?allowed" by auto
  with assms(7)
  have "\<forall>a \<in> set ?assets. \<forall>e. ?reader a = Inl e \<longrightarrow> list_ex (isinstance e) ?allowed"
    by (auto split: if_splits)
  from multi_values_all_allowed [OF this d, of "[]"]
  have "multi_values ?assets ?reader ?allowed [] =
          Inr (List.map_filter (\<lambda>a. case ?reader a of Inl e \<Rightarrow> None | Inr v \<Rightarrow> Some (a, v)) ?assets)"
    by simp
  with assms(3,4,6) show ?thesis by (simp add: point_def)
qed

text \<open>
  The other way round: with an \<open>allowed_exceptions\<close> of the caller's that does not catch
  \<open>PointOutsideBounds\<close>, the first asset that reports the point outside its bounds ends the
  query with that exception.
\<close>

lemma point_raises_when_not_caught:
  assumes "assets_for_point H ev warp b c lon lat WGS84_CRS = (Inr assets, c1)"
    and "\<not> list_ex (isinstance PointOutsideBounds) allowed"
    and "transform_point warp lon lat coord_crs (geographic_crs b) = (lon', lat')"
    and "\<forall>a \<in> set assets. read_point a lon' lat' (geographic_crs b) = Inl PointOutsideBounds \<or>
                           (\<exists>v. read_point a lon' lat' (geographic_crs b) = Inr v)"
    and "\<exists>a \<in> set assets. read_point a lon' lat' (geographic_crs b) = Inl PointOutsideBounds"
  shows "point H ev warp read_point b c lon lat reverse coord_crs (Some allowed) =
           (Inl (ReaderError PointOutsideBounds), c1)"
proof -
  let ?assets = "if reverse then rev assets else assets"
  let ?reader = "\<lambda>a. read_point a lon' lat' (geographic_crs b)"
  from assms(4,5)
  have "\<forall>a \<in> set ?assets. ?reader a = Inl PointOutsideBounds \<or> (\<exists>v. ?reader a = Inr v)"
    and "\<exists>a \<in> set ?assets. ?reader a = Inl PointOutsideBounds" by auto
  from multi_values_not_caught [OF assms(2) this, of "[]"]
  have "multi_values ?assets ?reader allowed [] = Inl PointOutsideBounds" .
  moreover from assms(5) have "assets \<noteq> []" by auto
  ultimately show ?thesis using assms(1,3) by (simp add: point_def)
qed

lemma grid_tile_2101: "grid_tile (-60) (-1) 4 = Tile 5 8 4"
  by (simp add: grid_tile_def)

lemma find_2101: "find_quadkeys (quadtree_tms grid_tile) (Tile 5 8 4) 4 = Inr [''2101'']"
  by (simp add: find_quadkeys_def quadtree_quadkey eval_nat_numeral digit_char_def)

lemma example_assets_for_point:
  "assets_for_point content_fingerprint keep_all example_warp (example_backend [(''2101'', assets)])
     Map.empty (-60) (-1) WGS84_CRS
   = (Inr (dedupe_first assets),
      [hashkey content_fingerprint (example_backend [(''2101'', assets)]) 5 8 4
         \<mapsto> dedupe_first assets])"
  by (simp add: assets_for_point_def transform_point_def example_backend_fields
      example_quadkey_zoom quadtree_tile grid_tile_2101 get_assets_def keep_all_def
      get_assets_wrapped_def find_2101 dict_keys_fromkeys dict_get_def)

theorem point_drops_assets_outside_bounds_witness:
  "shrinking (keep_all :: nat MosaicJSON cache \<Rightarrow> nat MosaicJSON cache) \<and>
   cache_sound_for content_fingerprint (example_backend [(''2101'', [''a.tif'', ''b.tif''])])
     Map.empty \<and>
   fst (assets_for_point content_fingerprint keep_all example_warp
          (example_backend [(''2101'', [''a.tif'', ''b.tif''])]) Map.empty (-60) (-1) WGS84_CRS)
     = Inr [''a.tif'', ''b.tif''] \<and>
   example_read_point ''a.tif'' (-60) (-1) WGS84_CRS = Inl PointOutsideBounds \<and>
   example_read_point ''b.tif'' (-60) (-1) WGS84_CRS = Inr 7 \<and>
   fst (point content_fingerprint keep_all example_warp example_read_point
          (example_backend [(''2101'', [''a.tif'', ''b.tif''])]) Map.empty (-60) (-1) False
          WGS84_CRS None) = Inr [(''b.tif'', 7)] \<and>
   list_ex (isinstance PointOutsideBounds) [RioTilerErrorClass] \<and>
   fst (point content_fingerprint keep_all example_warp example_read_point
          (example_backend [(''2101'', [''a.tif'', ''b.tif''])]) Map.empty (-60) (-1) False
          WGS84_CRS (Some [RioTilerErrorClass])) = Inr [(''b.tif'', 7)]"
proof -
  let ?b = "example_backend [(''2101'', [''a.tif'', ''b.tif''])]"
  have a: "assets_for_point content_fingerprint keep_all example_warp ?b Map.empty (-60) (-1)
             WGS84_CRS
             = (Inr [''a.tif'', ''b.tif''],
                [hashkey content_fingerprint ?b 5 8 4 \<mapsto> [''a.tif'', ''b.tif'']])"
    using example_assets_for_point [of "[''a.tif'', ''b.tif'']"] by simp
  have n: "[''a.tif'', ''b.tif''] \<noteq> []" by simp
  have k: "(None :: exception_class list option) = None \<or>
         (\<exists>allowed. (None :: exception_class list option) = Some allowed \<and>
                     list_ex (isinstance PointOutsideBounds) allowed)"
    by simp
  have k': "Some [RioTilerErrorClass] = None \<or>
         (\<exists>allowed. Some [RioTilerErrorClass] = Some allowed \<and>
                     list_ex (isinstance PointOutsideBounds) allowed)"
    by simp
  have t: "transform_point example_warp (-60) (-1) WGS84_CRS (geographic_crs ?b) = (-60, -1)"
    by (simp add: transform_point_def example_backend_fields)
  have r: "\<forall>a \<in> set [''a.tif'', ''b.tif''].
             example_read_point a (-60) (-1) (geographic_crs ?b) = Inl PointOutsideBounds \<or>
             (\<exists>v. example_read_point a (-60) (-1) (geographic_crs ?b) = Inr v)"
    by (simp add: example_read_point_def)
  from point_drops_assets_outside_bounds
         [where read_point = example_read_point and reverse = False and b = ?b
            and H = content_fingerprint,
          OF shrinking_keep_all cache_sound_for_empty a n k t r]
       point_drops_assets_outside_bounds
         [where read_point = example_read_point and reverse = False and b = ?b
            and H = content_fingerprint,
          OF shrinking_keep_all cache_sound_for_empty a n k' t r]
  show ?thesis
    by (simp add: shrinking_keep_all cache_sound_for_empty a example_read_point_def
        example_backend_fields)
qed

theorem point_drops_assets_outside_bounds_counterexample:
  "fst (assets_for_point content_fingerprint keep_all example_warp
          (example_backend [(''2101'', [''a.tif'', ''b.tif''])]) Map.empty (-60) (-1) WGS84_CRS)
     = Inr [''a.tif'', ''b.tif''] \<and>
   example_read_point ''a.tif'' (-60) (-1) WGS84_CRS = Inl PointOutsideBounds \<and>
   example_read_point ''b.tif'' (-60) (-1) WGS84_CRS = Inr 7 \<and>
   fst (point content_fingerprint keep_all example_warp example_read_point
          (example_backend [(''2101'', [''a.tif'', ''b.tif''])]) Map.empty (-60) (-1) False
          WGS84_CRS (Some [])) = Inl (ReaderError PointOutsideBounds)"
  by (simp add: point_def example_assets_for_point transform_point_def example_backend_fields
      example_read_point_def)

lemma grid_tile_raw: "grid_tile 2000000 50 4 = Tile 88896 3 4"
  by (simp add: grid_tile_def)

lemma grid_tile_warped: "grid_tile 20 (1 / 2000) 4 = Tile 8 7 4"
  by (simp add: grid_tile_def)

lemma find_1222: "find_quadkeys (quadtree_tms grid_tile) (Tile 8 7 4) 4 = Inr [''1222'']"
  by (simp add: find_quadkeys_def quadtree_quadkey eval_nat_numeral digit_char_def)

lemma find_raw: "find_quadkeys (quadtree_tms grid_tile) (Tile 88896 3 4) 4 = Inr [''0022'']"
  by (simp add: find_quadkeys_def quadtree_quadkey eval_nat_numeral digit_char_def)

lemma point_resolves_with_default_crs:
  assumes "geographic_crs b = WGS84_CRS"
    and "t = tms_tile (tms b) lon lat (quadkey_zoom b)"
  shows "assets_for_point H ev warp b c lon lat WGS84_CRS
           = get_assets H ev b c (tile_x t) (tile_y t) (tile_z t)"
  using assms by (simp add: assets_for_point_def transform_point_def Let_def)

text \<open>
  C8. A point given in another reference system than the geographic one: \<open>point\<close> resolves
  the assets with \<open>assets_for_point(lon, lat)\<close>, which leaves \<open>coord_crs\<close> at its default,
  so the tile is the one of the coordinates as they were passed. Here the point
  \<open>(2000000, 50)\<close> of \<open>WEB_MERCATOR_CRS\<close> is \<open>(20, 1 / 2000)\<close> in the geographic system, in
  the cell of key \<open>1222\<close> that holds two assets: \<open>assets_for_point\<close> with the \<open>coord_crs\<close>
  finds them, \<open>point\<close> looks up the tile of \<open>(2000000, 50)\<close> and raises
  \<open>NoAssetFoundError\<close>.
\<close>

theorem point_resolves_untransformed_coordinates:
  "transform_point example_warp 2000000 50 WEB_MERCATOR_CRS
     (geographic_crs (example_backend [(''1222'', [''a.tif'', ''b.tif''])])) = (20, 1 / 2000) \<and>
   tms_tile (tms (example_backend [(''1222'', [''a.tif'', ''b.tif''])])) 20 (1 / 2000) 4 = Tile 8 7 4 \<and>
   tms_tile (tms (example_backend [(''1222'', [''a.tif'', ''b.tif''])])) 2000000 50 4
     = Tile 88896 3 4 \<and>
   fst (assets_for_point content_fingerprint keep_all example_warp
          (example_backend [(''1222'', [''a.tif'', ''b.tif''])]) Map.empty 2000000 50
          WEB_MERCATOR_CRS) = Inr [''a.tif'', ''b.tif''] \<and>
   point content_fingerprint keep_all example_warp example_read_point
     (example_backend [(''1222'', [''a.tif'', ''b.tif''])]) Map.empty 2000000 50 False
     WEB_MERCATOR_CRS None
   = (Inl NoAssetFoundError,
      [hashkey content_fingerprint (example_backend [(''1222'', [''a.tif'', ''b.tif''])])
         88896 3 4 \<mapsto> []])"
proof -
  let ?b = "example_backend [(''1222'', [''a.tif'', ''b.tif''])]"
  have t0: "transform_point example_warp 2000000 50 WEB_MERCATOR_CRS WGS84_CRS = (20, 1 / 2000)"
    by (simp add: transform_point_def example_warp_def WEB_MERCATOR_CRS_def WGS84_CRS_def)
  then have t: "transform_point example_warp 2000000 50 WEB_MERCATOR_CRS (geographic_crs ?b)
             = (20, 1 / 2000)"
    by (simp add: example_backend_fields)
  have w: "get_assets_wrapped ?b 8 7 4 = Inr [''a.tif'', ''b.tif'']"
    by (simp add: get_assets_wrapped_def example_backend_fields example_quadkey_zoom find_1222
        dict_keys_fromkeys dict_get_def)
  have r: "get_assets_wrapped ?b 88896 3 4 = Inr []"
    by (simp add: get_assets_wrapped_def example_backend_fields example_quadkey_zoom find_raw
        dict_keys_fromkeys dict_get_def)
  have a: "fst (assets_for_point content_fingerprint keep_all example_warp ?b Map.empty
                  2000000 50 WEB_MERCATOR_CRS) = Inr [''a.tif'', ''b.tif'']"
    by (simp add: assets_for_point_def t0 example_quadkey_zoom example_backend_fields
        quadtree_tile grid_tile_warped get_assets_def keep_all_def w)
  have p: "point content_fingerprint keep_all example_warp example_read_point ?b Map.empty
             2000000 50 False WEB_MERCATOR_CRS None
           = (Inl NoAssetFoundError, [hashkey content_fingerprint ?b 88896 3 4 \<mapsto> []])"
    by (simp add: point_def assets_for_point_def transform_point_def example_quadkey_zoom
        example_backend_fields quadtree_tile grid_tile_raw get_assets_def keep_all_def r)
  from t a p show ?thesis
    by (simp add: example_backend_fields quadtree_tile grid_tile_raw grid_tile_warped)
qed

end
